theory Spec2Isabelle
  imports Complex_Main "HOL-Library.Product_Lexorder"
begin

section \<open>Python strings and errors\<close>

text \<open>
  Strings are lists of characters; a character stands for a code point below 256.
  Every exception the backend can raise is a value of \<open>error\<close>; a function that may
  raise returns \<open>error + 'a\<close>, with \<open>Inl\<close> for the exception.
\<close>

datatype error =
    ValueError string
  | HTTPException int string
  | TypeError string
  | SQLAlchemyError string
  | ValidationError string

definition is_digit :: "char \<Rightarrow> bool" where
  "is_digit c = (48 \<le> (of_char c :: nat) \<and> (of_char c :: nat) \<le> 57)"

definition is_ascii_letter :: "char \<Rightarrow> bool" where
  "is_ascii_letter c =
     ((65 \<le> (of_char c :: nat) \<and> (of_char c :: nat) \<le> 90) \<or>
      (97 \<le> (of_char c :: nat) \<and> (of_char c :: nat) \<le> 122))"

text \<open>
  \<open>str.isspace\<close> on the code points below 256: tab, line feed, vertical tab, form
  feed, carriage return, the four separators 28 to 31, space, next line (133) and the
  no-break space (160).
\<close>

definition is_space :: "char \<Rightarrow> bool" where
  "is_space c =
     ((of_char c :: nat) \<in> {9, 10, 11, 12, 13, 28, 29, 30, 31, 32, 133, 160})"

text \<open>\<open>s.strip(chars)\<close>: drop the characters of the class from both ends.\<close>

definition strip_class :: "(char \<Rightarrow> bool) \<Rightarrow> string \<Rightarrow> string" where
  "strip_class p s = rev (dropWhile p (rev (dropWhile p s)))"

definition py_strip :: "string \<Rightarrow> string" where
  "py_strip s = strip_class is_space s"

section \<open>db.py: table names\<close>

text \<open>
  \<open>_TABLE_NAME_PATTERN = re.compile(r"^[A-Za-z0-9_ ()-]+$")\<close>, used with \<open>match\<close>:
  a non-empty run of characters of the class from the start, after which \<open>$\<close> holds,
  that is the string ends there or only a final line feed is left.
\<close>

definition table_name_char :: "char \<Rightarrow> bool" where
  "table_name_char c =
     (is_ascii_letter c \<or> is_digit c \<or> c = CHR ''_'' \<or> c = CHR '' '' \<or>
      c = CHR ''('' \<or> c = CHR '')'' \<or> c = CHR ''-'')"

definition TABLE_NAME_PATTERN_match :: "string \<Rightarrow> bool" where
  "TABLE_NAME_PATTERN_match s =
     (let body = takeWhile table_name_char s; rest = dropWhile table_name_char s
      in body \<noteq> [] \<and> (rest = [] \<or> rest = [CHR 0x0A]))"

definition ensure_safe_table_name :: "string \<Rightarrow> error + string" where
  "ensure_safe_table_name table_name =
     (if table_name = [] then Inl (ValueError ''Table name cannot be empty.'')
      else let candidate = py_strip table_name in
        if candidate = [] then Inl (ValueError ''Table name cannot be empty.'')
        else if \<not> TABLE_NAME_PATTERN_match candidate then
          Inl (ValueError
            ''Table name may only contain letters, numbers, spaces, underscores, parentheses, or hyphens.'')
        else Inr candidate)"

section \<open>Calendar dates and \<open>strptime\<close>\<close>

text \<open>
  A \<open>datetime.date\<close>. Python compares dates as the triples (year, month, day), which
  \<open>date_key\<close> with the lexicographic order on products gives.
\<close>

datatype date = Date (year: nat) (month: nat) (day: nat)

definition date_key :: "date \<Rightarrow> nat \<times> nat \<times> nat" where
  "date_key d = (year d, month d, day d)"

definition is_leap :: "nat \<Rightarrow> bool" where
  "is_leap y = (y mod 4 = 0 \<and> (y mod 100 \<noteq> 0 \<or> y mod 400 = 0))"

definition days_in_month :: "nat \<Rightarrow> nat \<Rightarrow> nat" where
  "days_in_month y m =
     (if m = 2 then (if is_leap y then 29 else 28)
      else if m = 4 \<or> m = 6 \<or> m = 9 \<or> m = 11 then 30 else 31)"

text \<open>The constructor \<open>date(year, month, day)\<close>; a value out of range is a ValueError.\<close>

definition make_date :: "nat \<Rightarrow> nat \<Rightarrow> nat \<Rightarrow> date option" where
  "make_date y m d =
     (if 1 \<le> y \<and> y \<le> 9999 \<and> 1 \<le> m \<and> m \<le> 12 \<and> 1 \<le> d \<and> d \<le> days_in_month y m
      then Some (Date y m d) else None)"

definition digit_val :: "char \<Rightarrow> nat" where
  "digit_val c = of_char c - 48"

definition is_nonzero_digit :: "char \<Rightarrow> bool" where
  "is_nonzero_digit c = (is_digit c \<and> c \<noteq> CHR ''0'')"

text \<open>
  \<open>datetime.strptime(s, "%Y-%m-%d")\<close> matches the regular expression
  \<open>(\d\d\d\d)-(1[0-2]|0[1-9]|[1-9])-(3[01]|[12]\d|0[1-9]|[1-9]| [1-9])\<close> at the start
  of \<open>s\<close>, fails when text is left over, and then builds the date. Each group below
  returns its value and the rest of the text. The alternatives of a group are tried in
  the order written; no string lets a later alternative succeed after an earlier one
  matched, so the matcher never has to come back to a group.
\<close>

definition match_year :: "string \<Rightarrow> (nat \<times> string) option" where
  "match_year s =
     (case s of
        a # b # c # d # r \<Rightarrow>
          if is_digit a \<and> is_digit b \<and> is_digit c \<and> is_digit d
          then Some (1000 * digit_val a + 100 * digit_val b + 10 * digit_val c + digit_val d, r)
          else None
      | _ \<Rightarrow> None)"

definition match_month :: "string \<Rightarrow> (nat \<times> string) option" where
  "match_month s =
     (case s of
        [] \<Rightarrow> None
      | [a] \<Rightarrow> if is_nonzero_digit a then Some (digit_val a, []) else None
      | a # b # r \<Rightarrow>
          if a = CHR ''1'' \<and> (b = CHR ''0'' \<or> b = CHR ''1'' \<or> b = CHR ''2'')
            then Some (10 + digit_val b, r)
          else if a = CHR ''0'' \<and> is_nonzero_digit b then Some (digit_val b, r)
          else if is_nonzero_digit a then Some (digit_val a, b # r)
          else None)"

definition match_day :: "string \<Rightarrow> (nat \<times> string) option" where
  "match_day s =
     (case s of
        [] \<Rightarrow> None
      | [a] \<Rightarrow> if is_nonzero_digit a then Some (digit_val a, []) else None
      | a # b # r \<Rightarrow>
          if a = CHR ''3'' \<and> (b = CHR ''0'' \<or> b = CHR ''1'') then Some (30 + digit_val b, r)
          else if (a = CHR ''1'' \<or> a = CHR ''2'') \<and> is_digit b
            then Some (10 * digit_val a + digit_val b, r)
          else if a = CHR ''0'' \<and> is_nonzero_digit b then Some (digit_val b, r)
          else if is_nonzero_digit a then Some (digit_val a, b # r)
          else if a = CHR '' '' \<and> is_nonzero_digit b then Some (digit_val b, r)
          else None)"

definition match_hyphen :: "string \<Rightarrow> string option" where
  "match_hyphen s = (case s of c # r \<Rightarrow> if c = CHR ''-'' then Some r else None | [] \<Rightarrow> None)"

definition strptime_ymd :: "string \<Rightarrow> date option" where
  "strptime_ymd s =
     (case match_year s of None \<Rightarrow> None | Some (y, r1) \<Rightarrow>
      case match_hyphen r1 of None \<Rightarrow> None | Some r2 \<Rightarrow>
      case match_month r2 of None \<Rightarrow> None | Some (m, r3) \<Rightarrow>
      case match_hyphen r3 of None \<Rightarrow> None | Some r4 \<Rightarrow>
      case match_day r4 of None \<Rightarrow> None | Some (d, r5) \<Rightarrow>
      if r5 \<noteq> [] then None else make_date y m d)"

text \<open>
  The fixed format written back: \<open>date.isoformat()\<close>, four digits of year, two of month
  and two of day, which is also how a date field of a response is serialised.
\<close>

definition digit_char :: "nat \<Rightarrow> char" where
  "digit_char n = char_of (48 + n mod 10)"


section \<open>main.py: week columns\<close>

record WeekColumn =
  raw :: string
  label :: string
  start_date :: date
  end_date :: date

text \<open>
  \<open>s.split(sep)\<close> for a non-empty separator: the occurrences of \<open>sep\<close> are found
  from the left and do not overlap; \<open>acc\<close> holds the part being read, reversed.
\<close>

function split_from :: "string \<Rightarrow> string \<Rightarrow> string \<Rightarrow> string list" where
  "split_from sep acc [] = [rev acc]"
| "split_from sep acc (c # cs) =
     (if sep \<noteq> [] \<and> take (length sep) (c # cs) = sep
      then rev acc # split_from sep [] (drop (length sep) (c # cs))
      else split_from sep (c # acc) cs)"
  by pat_completeness auto
termination
  by (relation "measure (\<lambda>(sep, acc, s). length s)") auto

definition py_split :: "string \<Rightarrow> string \<Rightarrow> string list" where
  "py_split s sep = split_from sep [] s"

definition is_quote :: "char \<Rightarrow> bool" where
  "is_quote c = (c = CHR 0x27)"

definition parse_week_column :: "string \<Rightarrow> WeekColumn option" where
  "parse_week_column column_name =
     (let cleaned = strip_class is_quote (py_strip column_name);
          parts = py_split cleaned '' - ''
      in case parts of
           [p0, p1] \<Rightarrow>
             (case strptime_ymd p0 of None \<Rightarrow> None | Some start_dt \<Rightarrow>
              case strptime_ymd p1 of None \<Rightarrow> None | Some end_dt \<Rightarrow>
                Some \<lparr>raw = column_name, label = cleaned,
                      start_date = start_dt, end_date = end_dt\<rparr>)
         | _ \<Rightarrow> None)"

text \<open>
  The condition of the catalogue query,
  \<open>column_name REGEXP "^'?\d{4}-\d{2}-\d{2} - \d{4}-\d{2}-\d{2}$"\<close>: an optional
  single quote, then two dates of the shape dddd-dd-dd around the separator.
\<close>

definition date_shape :: "string \<Rightarrow> bool" where
  "date_shape s =
     (case s of
        [y1, y2, y3, y4, h1, m1, m2, h2, d1, d2] \<Rightarrow>
          is_digit y1 \<and> is_digit y2 \<and> is_digit y3 \<and> is_digit y4 \<and> h1 = CHR ''-'' \<and>
          is_digit m1 \<and> is_digit m2 \<and> h2 = CHR ''-'' \<and> is_digit d1 \<and> is_digit d2
      | _ \<Rightarrow> False)"

definition week_shape :: "string \<Rightarrow> bool" where
  "week_shape s =
     (length s = 23 \<and> date_shape (take 10 s) \<and> take 3 (drop 10 s) = '' - '' \<and>
      date_shape (drop 13 s))"

definition week_regexp :: "string \<Rightarrow> bool" where
  "week_regexp column_name =
     (case column_name of
        [] \<Rightarrow> False
      | c # cs \<Rightarrow> if is_quote c then week_shape cs else week_shape (c # cs))"

text \<open>
  The body of \<open>_get_week_columns\<close> after the query: \<open>column_names\<close> are the names the
  query returned, in the order of the columns of the table. The sort is stable, as
  Python's is.
\<close>

definition week_columns_of :: "string list \<Rightarrow> WeekColumn list" where
  "week_columns_of column_names =
     sort_key (\<lambda>col. date_key (start_date col)) (List.map_filter parse_week_column column_names)"


section \<open>main.py: column resolution and categories\<close>

definition CATEGORY_DEFINITIONS :: "(string \<times> string list) list" where
  "CATEGORY_DEFINITIONS =
     [(''new_users'', [''New Users'']),
      (''inactive'', [''Inactive'']),
      (''core_gamers'', [''Core Gamer'']),
      (''starters'', [''Starters'']),
      (''regulars'', [''Regular'']),
      (''casuals'', [''Casual'']),
      (''previously_active_last_3m'', [''Previously Active (last 3 months)'']),
      (''previously_active_before_3m'', [''Previously Active (before 3 months)''])]"

definition CATEGORY_ALIASES :: "string list" where
  "CATEGORY_ALIASES = map fst CATEGORY_DEFINITIONS"

text \<open>A dictionary built from pairs in order: a later pair replaces an earlier one.\<close>

definition SEGMENT_LABEL_TO_ALIAS :: "string \<rightharpoonup> string" where
  "SEGMENT_LABEL_TO_ALIAS =
     map_of (rev (map (\<lambda>(alias, labels). (hd labels, alias)) CATEGORY_DEFINITIONS))"

definition COLUMN_CANDIDATES :: "string \<rightharpoonup> string list" where
  "COLUMN_CANDIDATES = map_of
     [(''Segment'', [''Segment'', ''segment'']),
      (''Name'', [''Name'', ''name'']),
      (''Email'', [''Email'', ''email'']),
      (''Phone'', [''Phone'', ''phone'']),
      (''User ID'', [''User ID'', ''user_id'']),
      (''Registered Date'', [''Registered Date'', ''registered_date'']),
      (''Cash Balance'', [''Cash Balance'', ''cash_balance'']),
      (''Total Contests Joined'', [''Total Contests Joined'', ''total_contests_joined'']),
      (''IPL Contests'', [''IPL Contests'', ''ipl_contests'']),
      (''Highest IPL Score'', [''Highest IPL Score'', ''highest_ipl_score'']),
      (''New Users'', [''New Users'', ''new_users'']),
      (''Inactive'', [''Inactive'', ''inactive'']),
      (''Core Gamer'', [''Core Gamer'', ''core_gamer'']),
      (''Starters'', [''Starters'', ''starters'']),
      (''Regular'', [''Regular'', ''regular'']),
      (''Casual'', [''Casual'', ''casual'']),
      (''Previously Active (last 3 months)'',
        [''Previously Active (last 3 months)'', ''prev_active_last3'',
         ''previously_active_last_3_months'']),
      (''Previously Active (before 3 months)'',
        [''Previously Active (before 3 months)'', ''prev_active_before3'',
         ''previously_active_before_3_months''])]"

text \<open>The loop of \<open>_resolve_column_name\<close> over the candidates.\<close>

fun first_candidate :: "string list \<Rightarrow> string set \<Rightarrow> string option" where
  "first_candidate [] columns = None"
| "first_candidate (candidate # rest) columns =
     (if candidate \<in> columns then Some candidate else first_candidate rest columns)"

definition candidates_of :: "string \<Rightarrow> string list" where
  "candidates_of column_key =
     (case COLUMN_CANDIDATES column_key of Some cs \<Rightarrow> cs | None \<Rightarrow> [column_key])"

definition resolve_column_name ::
  "string \<Rightarrow> string set \<Rightarrow> string \<Rightarrow> bool \<Rightarrow> error + string option" where
  "resolve_column_name column_key columns table_name required =
     (case first_candidate (candidates_of column_key) columns of
        Some candidate \<Rightarrow> Inr (Some candidate)
      | None \<Rightarrow>
          if required then
            Inl (HTTPException 500
              (''Column '' @ [CHR 0x27] @ column_key @ [CHR 0x27] @ '' not found in table '' @
               [CHR 0x27] @ table_name @ [CHR 0x27] @ ''.''))
          else Inr None)"

section \<open>main.py: week selection of \<open>segment_trends\<close>\<close>

text \<open>
  \<open>xs[i:]\<close> for any integer \<open>i\<close>: a negative index counts from the end, and an index
  beyond either end is clipped.
\<close>

definition slice_from :: "'a list \<Rightarrow> int \<Rightarrow> 'a list" where
  "slice_from xs i =
     (if i < 0 then drop (nat (max 0 (int (length xs) + i))) xs else drop (nat i) xs)"

definition in_range :: "date option \<Rightarrow> date option \<Rightarrow> WeekColumn \<Rightarrow> bool" where
  "in_range start end column =
     ((case start of None \<Rightarrow> True | Some s \<Rightarrow> date_key s \<le> date_key (start_date column)) \<and>
      (case end of None \<Rightarrow> True | Some e \<Rightarrow> date_key (end_date column) \<le> date_key e))"

definition select_trend_weeks ::
  "WeekColumn list \<Rightarrow> date option \<Rightarrow> date option \<Rightarrow> int \<Rightarrow> WeekColumn list" where
  "select_trend_weeks week_columns start end weeks =
     (let filtered_weeks = filter (in_range start end) week_columns
      in if filtered_weeks = [] then slice_from week_columns (- weeks)
         else if int (length filtered_weeks) > weeks then slice_from filtered_weeks (- weeks)
         else filtered_weeks)"

section \<open>main.py: segment breakdown\<close>

text \<open>
  A Python dictionary is a list of pairs in the order of insertion. \<open>dict_put\<close> is
  \<open>d[k] = v\<close>: the value of a present key is replaced where it stands, a new key is
  added at the end.
\<close>

fun dict_put :: "('k \<times> 'v) list \<Rightarrow> 'k \<Rightarrow> 'v \<Rightarrow> ('k \<times> 'v) list" where
  "dict_put [] k v = [(k, v)]"
| "dict_put ((k', v') # d) k v = (if k' = k then (k, v) # d else (k', v') # dict_put d k v)"

definition dict_get :: "('k \<times> int) list \<Rightarrow> 'k \<Rightarrow> int" where
  "dict_get d k = (case map_of d k of Some v \<Rightarrow> v | None \<Rightarrow> 0)"

definition dict_has :: "('k \<times> 'v) list \<Rightarrow> 'k \<Rightarrow> bool" where
  "dict_has d k = (k \<in> set (map fst d))"

definition zero_counts :: "(string \<times> int) list" where
  "zero_counts = map (\<lambda>alias. (alias, 0)) CATEGORY_ALIASES"

record SegmentCounts =
  segment :: string
  counts :: "(string \<times> int) list"

record SegmentStatsResponse =
  categories :: "string list"
  stats_segments :: "SegmentCounts list"
  totals :: "(string \<times> int) list"
  total_users :: int

text \<open>\<open>SEGMENT_LABEL_TO_ALIAS.get(label, label)\<close>.\<close>

definition alias_of :: "string \<Rightarrow> string" where
  "alias_of l = (case SEGMENT_LABEL_TO_ALIAS l of Some alias \<Rightarrow> alias | None \<Rightarrow> l)"

text \<open>\<open>x or 0\<close> on a count the store returned, where \<open>None\<close> is SQL's NULL.\<close>

definition or_zero :: "int option \<Rightarrow> int" where
  "or_zero v = (case v of None \<Rightarrow> 0 | Some n \<Rightarrow> n)"

text \<open>
  The loop of \<open>segment_stats\<close> over the rows of the grouped query, each a segment
  value and its \<open>COUNT(*)\<close>. A NULL segment cannot be the \<open>segment: str\<close> of a
  \<open>SegmentCounts\<close>: the constructor raises.
\<close>

fun stats_loop ::
  "(string option \<times> int option) list \<Rightarrow> SegmentCounts list \<Rightarrow> (string \<times> int) list \<Rightarrow>
   error + SegmentCounts list \<times> (string \<times> int) list" where
  "stats_loop [] segs tots = Inr (segs, tots)"
| "stats_loop ((seg, user_count) # rows) segs tots =
     (case seg of
        None \<Rightarrow> Inl (ValidationError ''SegmentCounts.segment: none is not an allowed value'')
      | Some l \<Rightarrow>
          let alias = alias_of l in
          if dict_has zero_counts alias then
            let c = or_zero user_count in
            stats_loop rows
              (segs @ [\<lparr>segment = l, counts = dict_put zero_counts alias c\<rparr>])
              (dict_put tots alias (dict_get tots alias + c))
          else stats_loop rows (segs @ [\<lparr>segment = l, counts = zero_counts\<rparr>]) tots)"

definition segment_stats_response ::
  "(string option \<times> int option) list \<Rightarrow> int \<Rightarrow> error + SegmentStatsResponse" where
  "segment_stats_response rows users_total =
     (case stats_loop rows [] zero_counts of
        Inl e \<Rightarrow> Inl e
      | Inr (segs, tots) \<Rightarrow>
          Inr \<lparr>categories = CATEGORY_ALIASES, stats_segments = segs, totals = tots,
               total_users = users_total\<rparr>)"





section \<open>The store and the requests\<close>

text \<open>
  A value of a data column as the driver returns it: NULL, an integer or a text.
\<close>

datatype sql_value = Null | IntV int | StrV string

text \<open>
  \<open>int(s)\<close> for a text. White space is skipped at both ends: tab, line feed, vertical
  tab, form feed, carriage return and space, and the next line (133) and no-break space
  (160), which are turned into spaces first; the separators 28 to 31, which \<open>strip\<close>
  drops, are not among them. After an optional sign comes a run of digits and
  underscores. It must not begin or end with an underscore nor hold two in a row, it
  must hold at most 4300 digits and at least one, and only white space may follow it.
\<close>

definition is_int_space :: "char \<Rightarrow> bool" where
  "is_int_space c = ((of_char c :: nat) \<in> {9, 10, 11, 12, 13, 32, 133, 160})"

definition is_digit_or_underscore :: "char \<Rightarrow> bool" where
  "is_digit_or_underscore c = (is_digit c \<or> c = CHR ''_'')"

fun doubled_underscore :: "string \<Rightarrow> bool" where
  "doubled_underscore (a # b # r) =
     ((a = CHR ''_'' \<and> b = CHR ''_'') \<or> doubled_underscore (b # r))"
| "doubled_underscore _ = False"

definition digits_value :: "string \<Rightarrow> int" where
  "digits_value ds = foldl (\<lambda>a c. 10 * a + int (digit_val c)) 0 (filter is_digit ds)"

text \<open>
  The messages of the two errors. The first shows \<open>repr(s)\<close>, cut to 200 characters:
  the text between single quotes, or between double quotes when it holds a single quote
  and no double quote, with the quote and the backslash escaped and the characters
  that do not print written as \<open>\t\<close>, \<open>\n\<close>, \<open>\r\<close> or \<open>\xNN\<close>. The second shows the
  number of digits.
\<close>

definition hex_digit :: "nat \<Rightarrow> char" where
  "hex_digit n = (if n < 10 then char_of (48 + n) else char_of (87 + n))"

definition repr_char :: "char \<Rightarrow> char \<Rightarrow> string" where
  "repr_char quote c =
     (let n = (of_char c :: nat)
      in if c = quote \<or> c = CHR 0x5C then [CHR 0x5C, c]
         else if n = 9 then [CHR 0x5C, CHR ''t'']
         else if n = 10 then [CHR 0x5C, CHR ''n'']
         else if n = 13 then [CHR 0x5C, CHR ''r'']
         else if n < 32 \<or> n = 127 \<or> (128 \<le> n \<and> n \<le> 160) \<or> n = 173
           then [CHR 0x5C, CHR ''x'', hex_digit (n div 16), hex_digit (n mod 16)]
         else [c])"

definition py_repr :: "string \<Rightarrow> string" where
  "py_repr s =
     (let quote = (if CHR 0x27 \<in> set s \<and> CHR 0x22 \<notin> set s then CHR 0x22 else CHR 0x27)
      in quote # concat (map (repr_char quote) s) @ [quote])"

function nat_dec :: "nat \<Rightarrow> string" where
  "nat_dec n = (if n < 10 then [digit_char n] else nat_dec (n div 10) @ [digit_char n])"
  by pat_completeness auto

termination
  by (relation "measure id") auto

declare nat_dec.simps [simp del]

definition invalid_literal :: "string \<Rightarrow> error" where
  "invalid_literal s =
     ValueError (''invalid literal for int() with base 10: '' @ take 200 (py_repr s))"

definition digit_limit_exceeded :: "nat \<Rightarrow> error" where
  "digit_limit_exceeded n =
     ValueError (''Exceeds the limit (4300 digits) for integer string conversion: value has ''
                 @ nat_dec n
                 @ '' digits; use sys.set_int_max_str_digits() to increase the limit'')"

definition int_of_string :: "string \<Rightarrow> error + int" where
  "int_of_string s =
     (let t = dropWhile is_int_space s;
          neg = (t \<noteq> [] \<and> hd t = CHR ''-'');
          body = (if t \<noteq> [] \<and> (hd t = CHR ''-'' \<or> hd t = CHR ''+'') then tl t else t);
          run = takeWhile is_digit_or_underscore body;
          rest = dropWhile is_digit_or_underscore body;
          digits = filter is_digit run
      in if run \<noteq> [] \<and> (hd run = CHR ''_'' \<or> last run = CHR ''_'') then Inl (invalid_literal s)
         else if doubled_underscore run then Inl (invalid_literal s)
         else if 4300 < length digits then Inl (digit_limit_exceeded (length digits))
         else if run = [] then Inl (invalid_literal s)
         else if dropWhile is_int_space rest \<noteq> [] then Inl (invalid_literal s)
         else Inr (if neg then - digits_value digits else digits_value digits))"

definition py_int :: "sql_value \<Rightarrow> error + int" where
  "py_int v =
     (case v of
        Null \<Rightarrow> Inl (TypeError ''int() argument must be a string or a number'')
      | IntV n \<Rightarrow> Inr n
      | StrV s \<Rightarrow> int_of_string s)"

text \<open>\<open>value or 0\<close> on what \<open>row.get\<close> returned.\<close>

definition value_or_zero :: "sql_value option \<Rightarrow> sql_value" where
  "value_or_zero v =
     (case v of
        None \<Rightarrow> IntV 0
      | Some Null \<Rightarrow> IntV 0
      | Some (IntV n) \<Rightarrow> IntV n
      | Some (StrV s) \<Rightarrow> if s = [] then IntV 0 else StrV s)"

text \<open>
  The statements sent to the store, each with the identifiers and bound values its
  text is built from. The averages of the metrics row are decimals, which the code
  turns into floats; they are reals here, and no property below depends on them.
\<close>

datatype query =
    Q_ListColumns string
  | Q_WeekColumnNames string
  | Q_SegmentCounts string "string option"
  | Q_TotalCount string
  | Q_InsightMetrics string "string option" "string option list" string
  | Q_RecentActive string "string option" "string list" string
  | Q_RecentActivity string "string option" "string list" string
  | Q_TrendTotals string "string option" "string list" "string list"
  | Q_TimelineRow string "string option" "string option" "string option" "string list" int

record MetricsRow =
  mr_user_count :: "int option"
  mr_avg_cash_balance :: "real option"
  mr_avg_total_contests :: "real option"
  mr_avg_ipl_contests :: "real option"
  mr_avg_highest_ipl_score :: "real option"
  mr_avg_days_since_registration :: "real option"

record TimelineRow =
  tr_user_id :: int
  tr_name :: "string option"
  tr_segment :: "string option"
  tr_weeks :: "string \<rightharpoonup> sql_value"

text \<open>
  The store: the environment variable that names the default table, the columns of
  each table in the order of their positions, and the answer to each statement. An
  answer \<open>Inl msg\<close> is the SQLAlchemyError the statement raises. The two bounded caches
  in front of the catalogue queries are left out: every lookup asks the store.
\<close>

record store =
  MYSQL_TABLE :: "string option"
  table_columns :: "string \<Rightarrow> string + string list"
  count_rows :: "query \<Rightarrow> string + (string option \<times> int option) list"
  scalar_one :: "query \<Rightarrow> string + int"
  metrics_first :: "query \<Rightarrow> string + MetricsRow option"
  mapping_first :: "query \<Rightarrow> string + (string \<rightharpoonup> sql_value) option"
  grouped_rows :: "query \<Rightarrow> string + (string option \<times> (string \<rightharpoonup> sql_value)) list"
  timeline_first :: "query \<Rightarrow> string + TimelineRow option"

text \<open>
  A request runs against the list of statements executed so far and returns its
  result, or the exception raised, with the list extended.
\<close>

type_synonym 'a io = "query list \<Rightarrow> (error + 'a) \<times> query list"

definition returnE :: "'a \<Rightarrow> 'a io" where
  "returnE x = (\<lambda>trace. (Inr x, trace))"

definition raiseE :: "error \<Rightarrow> 'a io" where
  "raiseE e = (\<lambda>trace. (Inl e, trace))"

definition liftE :: "error + 'a \<Rightarrow> 'a io" where
  "liftE r = (\<lambda>trace. (r, trace))"

definition bindE :: "'a io \<Rightarrow> ('a \<Rightarrow> 'b io) \<Rightarrow> 'b io" where
  "bindE m f = (\<lambda>trace. case m trace of (Inl e, trace') \<Rightarrow> (Inl e, trace') | (Inr x, trace') \<Rightarrow> f x trace')"

definition execute :: "query \<Rightarrow> string + 'a \<Rightarrow> 'a io" where
  "execute q answer =
     (\<lambda>trace. (case answer of Inl msg \<Rightarrow> Inl (SQLAlchemyError msg) | Inr x \<Rightarrow> Inr x, trace @ [q]))"

text \<open>\<open>try: ... except SQLAlchemyError as exc: raise HTTPException(500, ...)\<close>.\<close>

definition db_guard :: "'a io \<Rightarrow> 'a io" where
  "db_guard m =
     (\<lambda>trace. case m trace of
        (Inl (SQLAlchemyError msg), trace') \<Rightarrow>
          (Inl (HTTPException 500 (''Database error: '' @ msg)), trace')
      | r \<Rightarrow> r)"

definition get_default_table_name :: "store \<Rightarrow> error + string" where
  "get_default_table_name st =
     ensure_safe_table_name (case MYSQL_TABLE st of Some t \<Rightarrow> t | None \<Rightarrow> ''user_cluster'')"

definition resolve_table_name :: "store \<Rightarrow> string option \<Rightarrow> error + string" where
  "resolve_table_name st table_name =
     (case table_name of
        None \<Rightarrow> get_default_table_name st
      | Some t \<Rightarrow> if t \<noteq> [] then ensure_safe_table_name t else get_default_table_name st)"

definition get_table_column_set :: "store \<Rightarrow> string \<Rightarrow> string set io" where
  "get_table_column_set st table_name =
     db_guard (bindE (execute (Q_ListColumns table_name) (table_columns st table_name))
       (\<lambda>names. returnE (set names)))"

definition get_week_columns :: "store \<Rightarrow> string \<Rightarrow> WeekColumn list io" where
  "get_week_columns st table_name =
     bindE (execute (Q_WeekColumnNames table_name) (table_columns st table_name))
       (\<lambda>names. returnE (week_columns_of (filter week_regexp names)))"

definition segment_stats :: "store \<Rightarrow> string option \<Rightarrow> SegmentStatsResponse io" where
  "segment_stats st table_name =
     bindE (liftE (resolve_table_name st table_name)) (\<lambda>safe_table.
     bindE (get_table_column_set st safe_table) (\<lambda>columns.
     bindE (liftE (resolve_column_name ''Segment'' columns safe_table True)) (\<lambda>segment_col.
     bindE (db_guard
       (bindE (execute (Q_SegmentCounts safe_table segment_col)
                (count_rows st (Q_SegmentCounts safe_table segment_col))) (\<lambda>rows.
        bindE (execute (Q_TotalCount safe_table) (scalar_one st (Q_TotalCount safe_table)))
          (\<lambda>users_total. returnE (rows, users_total))))) (\<lambda>(rows, users_total).
     liftE (segment_stats_response rows users_total)))))"

subsection \<open>\<open>segment_insights\<close>\<close>

record TimelinePoint =
  tp_label :: string
  tp_start_date :: date
  tp_end_date :: date
  contests :: int

record SegmentInsightMetrics =
  user_count :: int
  avg_cash_balance :: real
  avg_total_contests :: real
  avg_ipl_contests :: real
  avg_highest_ipl_score :: real
  avg_days_since_registration :: real
  recent_active_share :: real

record SegmentInsightResponse =
  insight_segment :: string
  metrics :: SegmentInsightMetrics
  recent_activity :: "TimelinePoint list"

text \<open>\<open>float(x or 0)\<close> on an average the store returned.\<close>

definition float_or_zero :: "real option \<Rightarrow> real" where
  "float_or_zero v = (case v of None \<Rightarrow> 0 | Some r \<Rightarrow> r)"

definition insight_metrics :: "MetricsRow \<Rightarrow> int \<Rightarrow> SegmentInsightMetrics" where
  "insight_metrics metrics_row active_users =
     \<lparr>user_count = or_zero (mr_user_count metrics_row),
      avg_cash_balance = float_or_zero (mr_avg_cash_balance metrics_row),
      avg_total_contests = float_or_zero (mr_avg_total_contests metrics_row),
      avg_ipl_contests = float_or_zero (mr_avg_ipl_contests metrics_row),
      avg_highest_ipl_score = float_or_zero (mr_avg_highest_ipl_score metrics_row),
      avg_days_since_registration = float_or_zero (mr_avg_days_since_registration metrics_row),
      recent_active_share =
        (if or_zero (mr_user_count metrics_row) \<noteq> 0
         then real_of_int active_users / real_of_int (or_zero (mr_user_count metrics_row))
         else 0)\<rparr>"

text \<open>The loop that builds \<open>recent_activity\<close>; \<open>int\<close> may raise on a text.\<close>

fun activity_points ::
  "WeekColumn list \<Rightarrow> (string \<rightharpoonup> sql_value) \<Rightarrow> error + TimelinePoint list" where
  "activity_points [] data = Inr []"
| "activity_points (col # rest) data =
     (case py_int (value_or_zero (data (raw col))) of
        Inl e \<Rightarrow> Inl e
      | Inr n \<Rightarrow>
          (case activity_points rest data of
             Inl e \<Rightarrow> Inl e
           | Inr ps \<Rightarrow>
               Inr (\<lparr>tp_label = label col, tp_start_date = start_date col,
                     tp_end_date = end_date col, contests = n\<rparr> # ps)))"

text \<open>
  The \<open>try\<close> block of \<open>segment_insights\<close>: the metrics row, then the two optional
  queries. An HTTPException raised inside passes through; an SQLAlchemyError becomes the
  error of status 500.
\<close>

definition insights_fetch ::
  "store \<Rightarrow> query \<Rightarrow> query option \<Rightarrow> query option \<Rightarrow>
   (MetricsRow \<times> int \<times> (string \<rightharpoonup> sql_value) option) io" where
  "insights_fetch st metrics_query recent_active_query recent_activity_query =
     db_guard
       (bindE (execute metrics_query (metrics_first st metrics_query)) (\<lambda>metrics_row.
        case metrics_row of
          None \<Rightarrow> raiseE (HTTPException 404 ''Segment not found or has no users.'')
        | Some mrow \<Rightarrow>
            if or_zero (mr_user_count mrow) = 0 then
              raiseE (HTTPException 404 ''Segment not found or has no users.'')
            else
              bindE (case recent_active_query of
                       None \<Rightarrow> returnE 0
                     | Some q \<Rightarrow> execute q (scalar_one st q)) (\<lambda>active_users.
              bindE (case recent_activity_query of
                       None \<Rightarrow> returnE None
                     | Some q \<Rightarrow> execute q (mapping_first st q)) (\<lambda>recent_activity_row.
              returnE (mrow, active_users, recent_activity_row)))))"

definition segment_insights ::
  "store \<Rightarrow> string \<Rightarrow> string option \<Rightarrow> int \<Rightarrow> SegmentInsightResponse io" where
  "segment_insights st seg table_name weeks =
     bindE (liftE (resolve_table_name st table_name)) (\<lambda>safe_table.
     bindE (get_table_column_set st safe_table) (\<lambda>columns.
     bindE (liftE (resolve_column_name ''Segment'' columns safe_table True)) (\<lambda>segment_col.
     bindE (get_week_columns st safe_table) (\<lambda>week_columns.
     if week_columns = [] then
       raiseE (HTTPException 404 ''No weekly columns configured for this table.'')
     else
     let recent_weeks = slice_from week_columns (- weeks) in
     bindE (liftE (resolve_column_name ''Cash Balance'' columns safe_table False))
       (\<lambda>cash_balance_col.
     bindE (liftE (resolve_column_name ''Total Contests Joined'' columns safe_table False))
       (\<lambda>total_contests_col.
     bindE (liftE (resolve_column_name ''IPL Contests'' columns safe_table False))
       (\<lambda>ipl_contests_col.
     bindE (liftE (resolve_column_name ''Highest IPL Score'' columns safe_table False))
       (\<lambda>highest_ipl_col.
     bindE (liftE (resolve_column_name ''Registered Date'' columns safe_table False))
       (\<lambda>registered_date_col.
     let metrics_query = Q_InsightMetrics safe_table segment_col
           [cash_balance_col, total_contests_col, ipl_contests_col, highest_ipl_col,
            registered_date_col] seg;
         recent_active_cols =
           (if length recent_weeks \<ge> 4 then slice_from recent_weeks (- 4) else recent_weeks);
         recent_active_query =
           (if recent_active_cols \<noteq> []
            then Some (Q_RecentActive safe_table segment_col (map raw recent_active_cols) seg)
            else None);
         recent_activity_query =
           (if recent_weeks \<noteq> []
            then Some (Q_RecentActivity safe_table segment_col (map raw recent_weeks) seg)
            else None)
     in
     bindE (insights_fetch st metrics_query recent_active_query recent_activity_query)
       (\<lambda>(mrow, active_users, recent_activity_row).
     bindE (liftE (activity_points recent_weeks
              (case recent_activity_row of None \<Rightarrow> Map.empty | Some r \<Rightarrow> r))) (\<lambda>points.
     returnE \<lparr>insight_segment = seg, metrics = insight_metrics mrow active_users,
              recent_activity = points\<rparr>)))))))))))"

subsection \<open>\<open>segment_trends\<close>\<close>

record SegmentTrendPoint =
  stp_label :: string
  stp_start_date :: date
  stp_end_date :: date
  stp_totals :: "(string \<times> int) list"

record SegmentTrendResponse =
  trend_segments :: "string list"
  trend_points :: "SegmentTrendPoint list"

text \<open>The inner loop: the totals of one week, a dictionary keyed by segment.\<close>

fun week_totals ::
  "(string option \<times> (string \<rightharpoonup> sql_value)) list \<Rightarrow> string \<Rightarrow>
   (string option \<times> int) list \<Rightarrow> error + (string option \<times> int) list" where
  "week_totals [] column tots = Inr tots"
| "week_totals ((seg, vals) # rows) column tots =
     (case py_int (value_or_zero (vals column)) of
        Inl e \<Rightarrow> Inl e
      | Inr n \<Rightarrow> week_totals rows column (dict_put tots seg n))"

text \<open>
  A NULL segment is no key of \<open>totals: Dict[str, int]\<close> and no element of
  \<open>segments: List[str]\<close>: the constructors raise.
\<close>

fun string_keys :: "(string option \<times> int) list \<Rightarrow> error + (string \<times> int) list" where
  "string_keys [] = Inr []"
| "string_keys ((k, v) # d) =
     (case k of
        None \<Rightarrow> Inl (ValidationError ''totals: none is not an allowed value'')
      | Some s \<Rightarrow> (case string_keys d of Inl e \<Rightarrow> Inl e | Inr d' \<Rightarrow> Inr ((s, v) # d')))"

fun trend_points_of ::
  "WeekColumn list \<Rightarrow> (string option \<times> (string \<rightharpoonup> sql_value)) list \<Rightarrow>
   error + SegmentTrendPoint list" where
  "trend_points_of [] rows = Inr []"
| "trend_points_of (column # rest) rows =
     (case week_totals rows (raw column) [] of
        Inl e \<Rightarrow> Inl e
      | Inr tots \<Rightarrow>
          (case string_keys tots of
             Inl e \<Rightarrow> Inl e
           | Inr tots' \<Rightarrow>
               (case trend_points_of rest rows of
                  Inl e \<Rightarrow> Inl e
                | Inr ps \<Rightarrow>
                    Inr (\<lparr>stp_label = label column, stp_start_date = start_date column,
                          stp_end_date = end_date column, stp_totals = tots'\<rparr> # ps))))"

fun string_list :: "string option list \<Rightarrow> error + string list" where
  "string_list [] = Inr []"
| "string_list (x # xs) =
     (case x of
        None \<Rightarrow> Inl (ValidationError ''segments: none is not an allowed value'')
      | Some s \<Rightarrow> (case string_list xs of Inl e \<Rightarrow> Inl e | Inr ys \<Rightarrow> Inr (s # ys)))"

definition trend_response ::
  "WeekColumn list \<Rightarrow> (string option \<times> (string \<rightharpoonup> sql_value)) list \<Rightarrow>
   error + SegmentTrendResponse" where
  "trend_response filtered_weeks rows =
     (case trend_points_of filtered_weeks rows of
        Inl e \<Rightarrow> Inl e
      | Inr ps \<Rightarrow>
          (case string_list (map fst rows) of
             Inl e \<Rightarrow> Inl e
           | Inr segs \<Rightarrow> Inr \<lparr>trend_segments = segs, trend_points = ps\<rparr>))"

definition segment_trends ::
  "store \<Rightarrow> string list option \<Rightarrow> string option \<Rightarrow> date option \<Rightarrow> date option \<Rightarrow> int \<Rightarrow>
   SegmentTrendResponse io" where
  "segment_trends st segs table_name start end weeks =
     bindE (liftE (resolve_table_name st table_name)) (\<lambda>safe_table.
     bindE (get_table_column_set st safe_table) (\<lambda>columns.
     bindE (liftE (resolve_column_name ''Segment'' columns safe_table True)) (\<lambda>segment_col.
     bindE (get_week_columns st safe_table) (\<lambda>week_columns.
     if week_columns = [] then
       raiseE (HTTPException 404 ''No weekly columns configured for this table.'')
     else
     let filtered_weeks = select_trend_weeks week_columns start end weeks;
         q = Q_TrendTotals safe_table segment_col (map raw filtered_weeks)
               (case segs of None \<Rightarrow> [] | Some l \<Rightarrow> l)
     in
     bindE (db_guard (execute q (grouped_rows st q))) (\<lambda>rows.
     if rows = [] then raiseE (HTTPException 404 ''No segments matched the provided filters.'')
     else liftE (trend_response filtered_weeks rows))))))"

subsection \<open>\<open>user_timeline\<close>\<close>

record UserTimelineResponse =
  user_id :: int
  name :: "string option"
  timeline_segment :: "string option"
  points :: "TimelinePoint list"

text \<open>
  \<open>int(raw_value) if raw_value not in (None, "") else 0\<close>, where \<open>raw_value\<close> is what
  \<open>row.get\<close> returned: \<open>None\<close> for a missing key, \<open>Some Null\<close> for SQL's NULL.
\<close>

definition week_count :: "sql_value option \<Rightarrow> error + int" where
  "week_count raw_value =
     (if raw_value \<noteq> None \<and> raw_value \<noteq> Some Null \<and> raw_value \<noteq> Some (StrV [])
      then py_int (case raw_value of Some v \<Rightarrow> v | None \<Rightarrow> Null) else Inr 0)"

text \<open>The loop over the week columns: a column outside the bounds is skipped.\<close>

fun timeline_points ::
  "WeekColumn list \<Rightarrow> date option \<Rightarrow> date option \<Rightarrow> (string \<rightharpoonup> sql_value) \<Rightarrow>
   error + TimelinePoint list" where
  "timeline_points [] start end row = Inr []"
| "timeline_points (column # rest) start end row =
     (if (case start of Some s \<Rightarrow> date_key (start_date column) < date_key s | None \<Rightarrow> False)
        then timeline_points rest start end row
      else if (case end of Some e \<Rightarrow> date_key e < date_key (end_date column) | None \<Rightarrow> False)
        then timeline_points rest start end row
      else
        case week_count (row (raw column)) of
          Inl e \<Rightarrow> Inl e
        | Inr n \<Rightarrow>
            (case timeline_points rest start end row of
               Inl e \<Rightarrow> Inl e
             | Inr ps \<Rightarrow>
                 Inr (\<lparr>tp_label = label column, tp_start_date = start_date column,
                       tp_end_date = end_date column, contests = n\<rparr> # ps)))"

text \<open>\<open>start and end and start > end\<close>; a date is never falsy.\<close>

definition start_after_end :: "date option \<Rightarrow> date option \<Rightarrow> bool" where
  "start_after_end start end =
     (case start of
        Some s \<Rightarrow> (case end of Some e \<Rightarrow> date_key e < date_key s | None \<Rightarrow> False)
      | None \<Rightarrow> False)"

definition user_timeline ::
  "store \<Rightarrow> int \<Rightarrow> string option \<Rightarrow> date option \<Rightarrow> date option \<Rightarrow> UserTimelineResponse io" where
  "user_timeline st uid table_name start end =
     (if start_after_end start end
      then raiseE (HTTPException 400 ''Start date must be before or equal to end date.'')
      else
     bindE (liftE (resolve_table_name st table_name)) (\<lambda>safe_table.
     bindE (get_table_column_set st safe_table) (\<lambda>columns.
     bindE (liftE (resolve_column_name ''User ID'' columns safe_table True)) (\<lambda>user_id_col.
     bindE (liftE (resolve_column_name ''Name'' columns safe_table True)) (\<lambda>name_col.
     bindE (liftE (resolve_column_name ''Segment'' columns safe_table True)) (\<lambda>segment_col.
     bindE (get_week_columns st safe_table) (\<lambda>week_columns.
     if week_columns = [] then
       raiseE (HTTPException 404 ''No weekly columns available in the selected table.'')
     else
     let q = Q_TimelineRow safe_table user_id_col name_col segment_col (map raw week_columns) uid
     in
     bindE (db_guard (execute q (timeline_first st q))) (\<lambda>row.
     case row of
       None \<Rightarrow> raiseE (HTTPException 404 ''User not found.'')
     | Some r \<Rightarrow>
         bindE (liftE (timeline_points week_columns start end (tr_weeks r))) (\<lambda>ps.
         returnE \<lparr>user_id = tr_user_id r, name = tr_name r, timeline_segment = tr_segment r,
                  points = ps\<rparr>)))))))))"

subsection \<open>An example store\<close>


definition demo_columns :: "string list" where
  "demo_columns =
     [''User ID'', ''name'', ''segment'', ''cash_balance'',
      ''2024-01-08 - 2024-01-14'', ''2024-01-01 - 2024-01-07'',
      CHR 0x27 # ''2024-01-15 - 2024-01-21'', ''2024-01-22 - 2024-01-28'', ''notes'']"

definition demo_row :: TimelineRow where
  "demo_row =
     \<lparr>tr_user_id = 7, tr_name = Some ''Ann'', tr_segment = Some ''New Users'',
      tr_weeks = map_of
        [(''2024-01-01 - 2024-01-07'', IntV 5), (''2024-01-08 - 2024-01-14'', Null),
         (CHR 0x27 # ''2024-01-15 - 2024-01-21'', StrV []),
         (''2024-01-22 - 2024-01-28'', IntV 3)]\<rparr>"

definition demo_sums :: "string \<rightharpoonup> sql_value" where
  "demo_sums = map_of
     [(''2024-01-01 - 2024-01-07'', IntV 9), (''2024-01-08 - 2024-01-14'', IntV 0),
      (CHR 0x27 # ''2024-01-15 - 2024-01-21'', IntV 4),
      (''2024-01-22 - 2024-01-28'', IntV 3)]"

definition demo_store :: store where
  "demo_store =
     \<lparr>MYSQL_TABLE = None,
      table_columns = (\<lambda>t.
        if t = ''user_cluster'' then Inr demo_columns
        else if t = ''no_weeks'' then Inr [''Segment'', ''Name'', ''User ID'']
        else if t = ''bare'' then Inr [''name'']
        else Inr []),
      count_rows = (\<lambda>q. Inr [(Some ''Inactive'', Some 4), (Some ''New Users'', Some 2),
                              (Some ''VIP'', Some 1)]),
      scalar_one = (\<lambda>q. case q of Q_RecentActive t c ws seg \<Rightarrow> Inr 1 | _ \<Rightarrow> Inr 7),
      metrics_first = (\<lambda>q. case q of
          Q_InsightMetrics t c cs seg \<Rightarrow>
            Inr (Some
              \<lparr>mr_user_count = (if seg = ''New Users'' then Some 2 else Some 0),
               mr_avg_cash_balance = (if seg = ''New Users'' then Some 12 else None),
               mr_avg_total_contests = None, mr_avg_ipl_contests = None,
               mr_avg_highest_ipl_score = None, mr_avg_days_since_registration = None\<rparr>)
        | _ \<Rightarrow> Inr None),
      mapping_first = (\<lambda>q. Inr (Some demo_sums)),
      grouped_rows = (\<lambda>q. Inr [(Some ''New Users'', demo_sums)]),
      timeline_first = (\<lambda>q. case q of
          Q_TimelineRow t c1 c2 c3 ws uid \<Rightarrow> if uid = 7 then Inr (Some demo_row) else Inr None
        | _ \<Rightarrow> Inr None)\<rparr>"

text \<open>
  A second table for the week catalogue: two of its week columns start on the same
  day, and the last one ends before it starts.
\<close>

definition irregular_columns :: "string list" where
  "irregular_columns =
     [''User ID'', ''2024-01-01 - 2024-01-14'', ''2024-01-01 - 2024-01-07'',
      ''2024-03-07 - 2024-03-01'']"

definition irregular_store :: store where
  "irregular_store = demo_store\<lparr>table_columns := (\<lambda>t. Inr irregular_columns)\<rparr>"

section \<open>Properties\<close>

lemma strip_class_last:
  assumes "strip_class p s \<noteq> []"
  shows "\<not> p (last (strip_class p s))"
proof -
  let ?r = "dropWhile p (rev (dropWhile p s))"
  from assms have ne: "?r \<noteq> []" by (simp add: strip_class_def)
  then have "\<not> p (hd ?r)" by (rule hd_dropWhile)
  moreover have "last (strip_class p s) = hd ?r"
    using ne by (simp add: strip_class_def last_rev)
  ultimately show ?thesis by simp
qed

lemma newline_is_space: "is_space (CHR 0x0A)"
  by (simp add: is_space_def)

lemma newline_not_table_name_char: "\<not> table_name_char (CHR 0x0A)"
  by (simp add: table_name_char_def is_ascii_letter_def is_digit_def)

lemma pattern_match_stripped:
  assumes "s \<noteq> []" and "\<not> is_space (last s)"
  shows "TABLE_NAME_PATTERN_match s \<longleftrightarrow> list_all table_name_char s"
proof
  assume m: "TABLE_NAME_PATTERN_match s"
  let ?rest = "dropWhile table_name_char s"
  from m have "?rest = [] \<or> ?rest = [CHR 0x0A]"
    by (simp add: TABLE_NAME_PATTERN_match_def Let_def)
  then show "list_all table_name_char s"
  proof
    assume "?rest = []"
    then show ?thesis by (simp add: dropWhile_eq_Nil_conv list_all_iff)
  next
    assume r: "?rest = [CHR 0x0A]"
    have "s = takeWhile table_name_char s @ ?rest" by simp
    with r have "s = takeWhile table_name_char s @ [CHR 0x0A]" by simp
    then have "last s = CHR 0x0A" by (metis last_snoc)
    with assms(2) newline_is_space show ?thesis by simp
  qed
next
  assume a: "list_all table_name_char s"
  then have tw: "takeWhile table_name_char s = s" and dw: "dropWhile table_name_char s = []"
    by (simp_all add: list_all_iff)
  show "TABLE_NAME_PATTERN_match s"
    unfolding TABLE_NAME_PATTERN_match_def Let_def tw dw using assms(1) by simp
qed

lemma ensure_safe_table_name_char:
  "ensure_safe_table_name t =
     (if py_strip t \<noteq> [] \<and> list_all table_name_char (py_strip t) then Inr (py_strip t)
      else if py_strip t = [] then Inl (ValueError ''Table name cannot be empty.'')
      else Inl (ValueError
        ''Table name may only contain letters, numbers, spaces, underscores, parentheses, or hyphens.''))"
proof (cases "py_strip t = []")
  case True
  then show ?thesis by (simp add: ensure_safe_table_name_def Let_def)
next
  case False
  then have "t \<noteq> []" by (auto simp: py_strip_def strip_class_def)
  moreover from False have "\<not> is_space (last (py_strip t))"
    unfolding py_strip_def by (rule strip_class_last)
  with False have "TABLE_NAME_PATTERN_match (py_strip t) \<longleftrightarrow> list_all table_name_char (py_strip t)"
    by (rule pattern_match_stripped)
  ultimately show ?thesis using False by (simp add: ensure_safe_table_name_def Let_def)
qed

subsection \<open>Table names\<close>

lemma ops_fail_on_bad_table:
  assumes "resolve_table_name st tn = Inl e"
  shows "segment_stats st tn tr = (Inl e, tr)"
    and "segment_insights st seg tn weeks tr = (Inl e, tr)"
    and "segment_trends st segs tn start end weeks tr = (Inl e, tr)"
    and "\<not> start_after_end start end \<Longrightarrow> user_timeline st uid tn start end tr = (Inl e, tr)"
  using assms by (simp_all add: segment_stats_def segment_insights_def segment_trends_def
      user_timeline_def bindE_def liftE_def)

lemma timeline_bad_dates:
  "start_after_end start end \<Longrightarrow>
     user_timeline st uid tn start end tr =
       (Inl (HTTPException 400 ''Start date must be before or equal to end date.''), tr)"
  by (simp add: user_timeline_def raiseE_def)

text \<open>
  Claim C9. \<open>ensure_safe_table_name\<close> returns the trimmed name exactly when the trimmed
  name is not empty and every character of it is an ASCII letter, a digit, a space, an
  underscore, a hyphen or a parenthesis; otherwise it raises a ValueError, and a request
  given such a name fails with it (the timeline with its date error, if the dates are
  wrong) without a statement being built or executed: the list of executed statements
  is returned as it was.
\<close>

theorem table_name_validation:
  "(py_strip t \<noteq> [] \<and> list_all table_name_char (py_strip t) \<longrightarrow>
      ensure_safe_table_name t = Inr (py_strip t)) \<and>
   (\<not> (py_strip t \<noteq> [] \<and> list_all table_name_char (py_strip t)) \<longrightarrow>
      (\<exists>msg. ensure_safe_table_name t = Inl (ValueError msg) \<and>
         (t \<noteq> [] \<longrightarrow>
            segment_stats st (Some t) tr = (Inl (ValueError msg), tr) \<and>
            segment_insights st seg (Some t) weeks tr = (Inl (ValueError msg), tr) \<and>
            segment_trends st segs (Some t) start end weeks tr = (Inl (ValueError msg), tr) \<and>
            user_timeline st uid (Some t) start end tr =
              (Inl (if start_after_end start end
                    then HTTPException 400 ''Start date must be before or equal to end date.''
                    else ValueError msg), tr))))"
proof (cases "py_strip t \<noteq> [] \<and> list_all table_name_char (py_strip t)")
  case True
  then show ?thesis by (simp add: ensure_safe_table_name_char)
next
  case False
  then have "\<exists>msg. ensure_safe_table_name t = Inl (ValueError msg)"
    by (cases "py_strip t = []") (simp_all add: ensure_safe_table_name_char)
  then obtain msg where m: "ensure_safe_table_name t = Inl (ValueError msg)" ..
  have "t \<noteq> [] \<Longrightarrow> resolve_table_name st (Some t) = Inl (ValueError msg)"
    using m by (simp add: resolve_table_name_def)
  then show ?thesis using False m
    by (cases "start_after_end start end")
       (auto simp: ops_fail_on_bad_table timeline_bad_dates)
qed

theorem table_name_validation_witness:
  "ensure_safe_table_name ''  user_cluster (v2) '' = Inr ''user_cluster (v2)'' \<and>
   (\<exists>msg. ensure_safe_table_name ''a;b'' = Inl (ValueError msg) \<and>
      segment_stats demo_store (Some ''a;b'') [] = (Inl (ValueError msg), []) \<and>
      user_timeline demo_store 7 (Some ''a;b'') None None [] = (Inl (ValueError msg), []))"
proof -
  have s1: "py_strip ''  user_cluster (v2) '' = ''user_cluster (v2)''" by code_simp
  have ok: "py_strip ''  user_cluster (v2) '' \<noteq> [] \<and>
            list_all table_name_char (py_strip ''  user_cluster (v2) '')" by code_simp
  have bad: "\<not> (py_strip ''a;b'' \<noteq> [] \<and> list_all table_name_char (py_strip ''a;b''))"
    by code_simp
  have ne: "''a;b'' \<noteq> []" by simp
  have d: "\<not> start_after_end None None" by (simp add: start_after_end_def)
  from table_name_validation [of "''  user_cluster (v2) ''"] ok s1
  have "ensure_safe_table_name ''  user_cluster (v2) '' = Inr ''user_cluster (v2)''" by simp
  moreover
  from table_name_validation [of "''a;b''" demo_store "[]" "''x''" 8 None None None 7] bad ne d
  have "\<exists>msg. ensure_safe_table_name ''a;b'' = Inl (ValueError msg) \<and>
      segment_stats demo_store (Some ''a;b'') [] = (Inl (ValueError msg), []) \<and>
      user_timeline demo_store 7 (Some ''a;b'') None None [] = (Inl (ValueError msg), [])"
    by auto
  ultimately show ?thesis by blast
qed

subsection \<open>Column resolution\<close>

lemma first_candidate_Some:
  "first_candidate cs columns = Some c \<longleftrightarrow>
     (\<exists>i < length cs. cs ! i = c \<and> c \<in> columns \<and> (\<forall>j < i. cs ! j \<notin> columns))"
proof (induction cs)
  case Nil
  then show ?case by simp
next
  case (Cons a cs)
  show ?case
  proof (cases "a \<in> columns")
    case True
    have "(\<exists>i < length (a # cs). (a # cs) ! i = c \<and> c \<in> columns \<and>
             (\<forall>j < i. (a # cs) ! j \<notin> columns)) \<longleftrightarrow> a = c"
    proof
      assume "\<exists>i < length (a # cs). (a # cs) ! i = c \<and> c \<in> columns \<and>
             (\<forall>j < i. (a # cs) ! j \<notin> columns)"
      then obtain i where i: "(a # cs) ! i = c" "\<forall>j < i. (a # cs) ! j \<notin> columns" by blast
      have "i = 0"
      proof (rule ccontr)
        assume "i \<noteq> 0"
        then have "0 < i" by simp
        with i(2) have "(a # cs) ! 0 \<notin> columns" by blast
        with True show False by simp
      qed
      with i(1) show "a = c" by simp
    next
      assume "a = c"
      with True show "\<exists>i < length (a # cs). (a # cs) ! i = c \<and> c \<in> columns \<and>
             (\<forall>j < i. (a # cs) ! j \<notin> columns)"
        by (intro exI[of _ 0]) simp
    qed
    with True show ?thesis by simp
  next
    case False
    have "(\<exists>i < length (a # cs). (a # cs) ! i = c \<and> c \<in> columns \<and> (\<forall>j < i. (a # cs) ! j \<notin> columns))
       \<longleftrightarrow> (\<exists>i < length cs. cs ! i = c \<and> c \<in> columns \<and> (\<forall>j < i. cs ! j \<notin> columns))"
      (is "?L \<longleftrightarrow> ?R")
    proof
      assume ?L
      then obtain i where i: "i < length (a # cs)" "(a # cs) ! i = c" "c \<in> columns"
        "\<forall>j < i. (a # cs) ! j \<notin> columns" by blast
      with False obtain k where k: "i = Suc k" by (cases i) auto
      with i have "k < length cs" "cs ! k = c" by auto
      moreover have "\<forall>j < k. cs ! j \<notin> columns"
      proof (intro allI impI)
        fix j assume "j < k"
        then have "Suc j < i" using k by simp
        with i(4) have "(a # cs) ! Suc j \<notin> columns" by blast
        then show "cs ! j \<notin> columns" by simp
      qed
      ultimately show ?R using i(3) by blast
    next
      assume ?R
      then obtain i where i: "i < length cs" "cs ! i = c" "c \<in> columns"
        "\<forall>j < i. cs ! j \<notin> columns" by blast
      have "\<forall>j < Suc i. (a # cs) ! j \<notin> columns"
      proof (intro allI impI)
        fix j assume "j < Suc i"
        then show "(a # cs) ! j \<notin> columns" using False i(4) by (cases j) auto
      qed
      with i show ?L by (intro exI[of _ "Suc i"]) auto
    qed
    with False Cons.IH show ?thesis by simp
  qed
qed

lemma first_candidate_None:
  "first_candidate cs columns = None \<longleftrightarrow> (\<forall>c \<in> set cs. c \<notin> columns)"
  by (induction cs) auto

text \<open>
  Claim C3. \<open>_resolve_column_name\<close> tries the candidate names of the field in the order
  in which they are declared and returns the first one that is a column of the table.
  When none is a column, it raises the error of status 500 that names the field and the
  table if the field is required, and returns \<open>None\<close> if it is not.
\<close>

theorem resolve_column_name_first_present:
  "(resolve_column_name key columns table required = Inr (Some c) \<longleftrightarrow>
      (\<exists>i < length (candidates_of key).
          candidates_of key ! i = c \<and> c \<in> columns \<and>
          (\<forall>j < i. candidates_of key ! j \<notin> columns))) \<and>
   ((\<forall>x \<in> set (candidates_of key). x \<notin> columns) \<and> required \<longrightarrow>
      resolve_column_name key columns table required =
        Inl (HTTPException 500
          (''Column '' @ [CHR 0x27] @ key @ [CHR 0x27] @ '' not found in table '' @
           [CHR 0x27] @ table @ [CHR 0x27] @ ''.''))) \<and>
   ((\<forall>x \<in> set (candidates_of key). x \<notin> columns) \<and> \<not> required \<longrightarrow>
      resolve_column_name key columns table required = Inr None)"
proof (intro conjI impI)
  show "resolve_column_name key columns table required = Inr (Some c) \<longleftrightarrow>
      (\<exists>i < length (candidates_of key).
          candidates_of key ! i = c \<and> c \<in> columns \<and>
          (\<forall>j < i. candidates_of key ! j \<notin> columns))"
    unfolding first_candidate_Some [symmetric]
    by (simp add: resolve_column_name_def split: option.splits)
next
  assume "(\<forall>x \<in> set (candidates_of key). x \<notin> columns) \<and> required"
  then have "first_candidate (candidates_of key) columns = None" and required
    by (simp_all add: first_candidate_None)
  then show "resolve_column_name key columns table required =
        Inl (HTTPException 500
          (''Column '' @ [CHR 0x27] @ key @ [CHR 0x27] @ '' not found in table '' @
           [CHR 0x27] @ table @ [CHR 0x27] @ ''.''))"
    by (simp add: resolve_column_name_def)
next
  assume "(\<forall>x \<in> set (candidates_of key). x \<notin> columns) \<and> \<not> required"
  then have "first_candidate (candidates_of key) columns = None" and "\<not> required"
    by (simp_all add: first_candidate_None)
  then show "resolve_column_name key columns table required = Inr None"
    by (simp add: resolve_column_name_def)
qed

lemma candidates_Segment: "candidates_of ''Segment'' = [''Segment'', ''segment'']"
  by code_simp

lemma candidates_Cash: "candidates_of ''Cash Balance'' = [''Cash Balance'', ''cash_balance'']"
  by code_simp

theorem resolve_column_name_first_present_witness:
  "resolve_column_name ''Segment'' {''segment'', ''name''} ''users'' True = Inr (Some ''segment'') \<and>
   resolve_column_name ''Segment'' {''name''} ''users'' True =
     Inl (HTTPException 500 (''Column '' @ [CHR 0x27] @ ''Segment'' @ [CHR 0x27] @
       '' not found in table '' @ [CHR 0x27] @ ''users'' @ [CHR 0x27] @ ''.'')) \<and>
   resolve_column_name ''Cash Balance'' {''name''} ''users'' False = Inr None"
proof -
  have a: "\<exists>i < length (candidates_of ''Segment'').
          candidates_of ''Segment'' ! i = ''segment'' \<and> ''segment'' \<in> {''segment'', ''name''} \<and>
          (\<forall>j < i. candidates_of ''Segment'' ! j \<notin> {''segment'', ''name''})"
    unfolding candidates_Segment by (intro exI[of _ 1]) simp
  have b: "(\<forall>x \<in> set (candidates_of ''Segment''). x \<notin> {''name''}) \<and> True"
    unfolding candidates_Segment by simp
  have c: "(\<forall>x \<in> set (candidates_of ''Cash Balance''). x \<notin> {''name''}) \<and> \<not> False"
    unfolding candidates_Cash by simp
  from resolve_column_name_first_present
         [of "''Segment''" "{''segment'', ''name''}" "''users''" True "''segment''"] a
  have "resolve_column_name ''Segment'' {''segment'', ''name''} ''users'' True =
          Inr (Some ''segment'')" by blast
  moreover
  from resolve_column_name_first_present [of "''Segment''" "{''name''}" "''users''" True] b
  have "resolve_column_name ''Segment'' {''name''} ''users'' True =
     Inl (HTTPException 500 (''Column '' @ [CHR 0x27] @ ''Segment'' @ [CHR 0x27] @
       '' not found in table '' @ [CHR 0x27] @ ''users'' @ [CHR 0x27] @ ''.''))" by blast
  moreover
  from resolve_column_name_first_present [of "''Cash Balance''" "{''name''}" "''users''" False] c
  have "resolve_column_name ''Cash Balance'' {''name''} ''users'' False = Inr None" by blast
  ultimately show ?thesis by blast
qed

subsection \<open>Week selection\<close>




subsection \<open>The exceptions of the requests\<close>

lemma ensure_safe_error:
  "ensure_safe_table_name t = Inl e \<Longrightarrow> \<exists>m. e = ValueError m"
  by (auto simp: ensure_safe_table_name_def Let_def split: if_splits)

lemma resolve_table_error:
  "resolve_table_name st tn = Inl e \<Longrightarrow> \<exists>m. e = ValueError m"
  by (auto simp: resolve_table_name_def get_default_table_name_def
      dest: ensure_safe_error split: option.splits if_splits)

lemma resolve_column_error:
  "resolve_column_name k cols t r = Inl e \<Longrightarrow> \<exists>m. e = HTTPException 500 m"
  by (auto simp: resolve_column_name_def split: option.splits if_splits)

lemma column_set_cases:
  "get_table_column_set st t tr =
     (case table_columns st t of
        Inl msg \<Rightarrow> (Inl (HTTPException 500 (''Database error: '' @ msg)), tr @ [Q_ListColumns t])
      | Inr names \<Rightarrow> (Inr (set names), tr @ [Q_ListColumns t]))"
  by (simp add: get_table_column_set_def db_guard_def bindE_def execute_def returnE_def
      split: sum.splits)

lemma week_columns_cases:
  "get_week_columns st t tr =
     (case table_columns st t of
        Inl msg \<Rightarrow> (Inl (SQLAlchemyError msg), tr @ [Q_WeekColumnNames t])
      | Inr names \<Rightarrow> (Inr (week_columns_of (filter week_regexp names)), tr @ [Q_WeekColumnNames t]))"
  by (simp add: get_week_columns_def bindE_def execute_def returnE_def split: sum.splits)

lemma guarded_execute:
  "db_guard (execute q a) tr =
     (case a of Inl msg \<Rightarrow> (Inl (HTTPException 500 (''Database error: '' @ msg)), tr @ [q])
              | Inr x \<Rightarrow> (Inr x, tr @ [q]))"
  by (simp add: db_guard_def execute_def split: sum.splits)

lemma if_chain_error:
  "(if c1 then Inl (invalid_literal s)
    else if c2 then Inl (invalid_literal s)
    else if c3 then Inl (digit_limit_exceeded n)
    else if c4 then Inl (invalid_literal s)
    else if c5 then Inl (invalid_literal s)
    else Inr v) = Inl e \<Longrightarrow> \<exists>m. e = ValueError m"
  by (auto simp: invalid_literal_def digit_limit_exceeded_def split: if_splits)

lemma int_of_string_error: "int_of_string s = Inl e \<Longrightarrow> \<exists>m. e = ValueError m"
  unfolding int_of_string_def Let_def by (rule if_chain_error)

lemma py_int_error: "py_int v = Inl e \<Longrightarrow> (\<exists>m. e = ValueError m) \<or> (\<exists>m. e = TypeError m)"
  by (auto simp: py_int_def dest: int_of_string_error split: sql_value.splits)

lemma timeline_points_error:
  "timeline_points wcs s e row = Inl err \<Longrightarrow>
     (\<exists>m. err = ValueError m) \<or> (\<exists>m. err = TypeError m)"
proof (induction wcs arbitrary: err)
  case Nil
  then show ?case by simp
next
  case (Cons c wcs)
  then show ?case
    by (auto simp: week_count_def dest: py_int_error split: if_splits sum.splits)
qed

text \<open>
  Claim C10. A timeline request with both dates given and the start after the end fails
  with the error of status 400 whatever the table name and the store are, and executes
  nothing: the check comes before the table name is resolved. When a date is missing or
  the start is not after the end, no error of status 400 is raised.
\<close>

theorem timeline_date_check:
  "((\<exists>s e. start = Some s \<and> end = Some e \<and> date_key s > date_key e) \<longrightarrow>
      user_timeline st uid tn start end tr =
        (Inl (HTTPException 400 ''Start date must be before or equal to end date.''), tr)) \<and>
   (\<not> (\<exists>s e. start = Some s \<and> end = Some e \<and> date_key s > date_key e) \<longrightarrow>
      (\<forall>msg. fst (user_timeline st uid tn start end tr) \<noteq> Inl (HTTPException 400 msg)))"
proof -
  have c: "start_after_end start end \<longleftrightarrow>
      (\<exists>s e. start = Some s \<and> end = Some e \<and> date_key s > date_key e)"
    by (auto simp: start_after_end_def split: option.splits)
  have "\<not> start_after_end start end \<Longrightarrow>
      fst (user_timeline st uid tn start end tr) \<noteq> Inl (HTTPException 400 msg)" for msg
    by (auto simp: user_timeline_def bindE_def liftE_def raiseE_def returnE_def Let_def
        column_set_cases week_columns_cases guarded_execute
        dest!: resolve_table_error resolve_column_error timeline_points_error
        split: sum.splits prod.splits option.splits if_splits)
  then show ?thesis unfolding c [symmetric] by (auto simp: timeline_bad_dates)
qed

theorem timeline_date_check_witness:
  "user_timeline demo_store 7 (Some ''a;b'') (Some (Date 2024 2 1)) (Some (Date 2024 1 1)) [] =
     (Inl (HTTPException 400 ''Start date must be before or equal to end date.''), []) \<and>
   fst (user_timeline demo_store 7 None (Some (Date 2024 1 1)) (Some (Date 2024 1 31)) []) \<noteq>
     Inl (HTTPException 400 ''Start date must be before or equal to end date.'')"
proof -
  have a: "\<exists>s e. Some (Date 2024 2 1) = Some s \<and> Some (Date 2024 1 1) = Some e \<and>
             date_key s > date_key e"
    by (simp add: date_key_def)
  have b: "\<not> (\<exists>s e. Some (Date 2024 1 1) = Some s \<and> Some (Date 2024 1 31) = Some e \<and>
             date_key s > date_key e)"
    by (simp add: date_key_def)
  from timeline_date_check
         [of "Some (Date 2024 2 1)" "Some (Date 2024 1 1)" demo_store 7 "Some ''a;b''" "[]"] a
  have "user_timeline demo_store 7 (Some ''a;b'') (Some (Date 2024 2 1)) (Some (Date 2024 1 1)) [] =
     (Inl (HTTPException 400 ''Start date must be before or equal to end date.''), [])"
    by blast
  moreover
  from timeline_date_check
         [of "Some (Date 2024 1 1)" "Some (Date 2024 1 31)" demo_store 7 None "[]"] b
  have "fst (user_timeline demo_store 7 None (Some (Date 2024 1 1)) (Some (Date 2024 1 31)) []) \<noteq>
     Inl (HTTPException 400 ''Start date must be before or equal to end date.'')"
    by blast
  ultimately show ?thesis by blast
qed

subsection \<open>Requests that need the week catalogue\<close>

lemma resolve_optional:
  "resolve_column_name k cols t False = Inr (first_candidate (candidates_of k) cols)"
  by (simp add: resolve_column_name_def split: option.splits)

lemma bindE_lift:
  "bindE (liftE r) f tr = (case r of Inl e \<Rightarrow> (Inl e, tr) | Inr x \<Rightarrow> f x tr)"
  by (simp add: bindE_def liftE_def split: sum.splits)

lemma bindE_column_set:
  "bindE (get_table_column_set st t) f tr =
     (case table_columns st t of
        Inl msg \<Rightarrow> (Inl (HTTPException 500 (''Database error: '' @ msg)), tr @ [Q_ListColumns t])
      | Inr names \<Rightarrow> f (set names) (tr @ [Q_ListColumns t]))"
  by (simp add: bindE_def column_set_cases split: sum.splits)

lemma bindE_week_columns:
  "bindE (get_week_columns st t) f tr =
     (case table_columns st t of
        Inl msg \<Rightarrow> (Inl (SQLAlchemyError msg), tr @ [Q_WeekColumnNames t])
      | Inr names \<Rightarrow> f (week_columns_of (filter week_regexp names)) (tr @ [Q_WeekColumnNames t]))"
  by (simp add: bindE_def week_columns_cases split: sum.splits)

lemma insights_prelude:
  assumes "resolve_table_name st tn = Inr t"
    and "table_columns st t = Inr names"
  shows "segment_insights st seg tn weeks tr =
           (case resolve_column_name ''Segment'' (set names) t True of
              Inl e \<Rightarrow> (Inl e, tr @ [Q_ListColumns t])
            | Inr c \<Rightarrow>
                if week_columns_of (filter week_regexp names) = [] then
                  (Inl (HTTPException 404 ''No weekly columns configured for this table.''),
                   tr @ [Q_ListColumns t, Q_WeekColumnNames t])
                else
                  bindE (insights_fetch st
                    (Q_InsightMetrics t c
                       (map (\<lambda>k. first_candidate (candidates_of k) (set names))
                          [''Cash Balance'', ''Total Contests Joined'', ''IPL Contests'',
                           ''Highest IPL Score'', ''Registered Date'']) seg)
                    (let rw = slice_from (week_columns_of (filter week_regexp names)) (- weeks);
                         rc = (if length rw \<ge> 4 then slice_from rw (- 4) else rw)
                     in if rc \<noteq> [] then Some (Q_RecentActive t c (map raw rc) seg) else None)
                    (let rw = slice_from (week_columns_of (filter week_regexp names)) (- weeks)
                     in if rw \<noteq> [] then Some (Q_RecentActivity t c (map raw rw) seg) else None))
                  (\<lambda>(mrow, active_users, recent_activity_row).
                     bindE (liftE (activity_points
                              (slice_from (week_columns_of (filter week_regexp names)) (- weeks))
                              (case recent_activity_row of None \<Rightarrow> Map.empty | Some r \<Rightarrow> r)))
                       (\<lambda>points.
                     returnE \<lparr>insight_segment = seg, metrics = insight_metrics mrow active_users,
                              recent_activity = points\<rparr>))
                  (tr @ [Q_ListColumns t, Q_WeekColumnNames t]))"
  using assms
  by (simp add: segment_insights_def bindE_lift bindE_column_set bindE_week_columns raiseE_def
      Let_def resolve_optional split: sum.splits)


lemma fetch_not_found:
  assumes "metrics_first st q = Inr None \<or>
           (\<exists>r. metrics_first st q = Inr (Some r) \<and>
                (mr_user_count r = None \<or> mr_user_count r = Some 0))"
  shows "insights_fetch st q qa qb tr =
           (Inl (HTTPException 404 ''Segment not found or has no users.''), tr @ [q])"
  using assms
  by (auto simp: insights_fetch_def db_guard_def bindE_def execute_def raiseE_def or_zero_def)

lemma fetch_result:
  assumes "insights_fetch st q qa qb tr = (Inr (mrow, a, r), tr')"
  shows "or_zero (mr_user_count mrow) \<noteq> 0"
proof -
  have "fst (insights_fetch st q qa qb tr) = Inr (mrow, a, r)" using assms by simp
  then show ?thesis
    by (auto simp: insights_fetch_def db_guard_def bindE_def execute_def raiseE_def returnE_def
        split: sum.splits option.splits if_splits prod.splits error.splits)
qed

lemma insights_result:
  assumes "segment_insights st seg tn weeks tr = (Inr resp, tr')"
  shows "user_count (metrics resp) \<noteq> 0"
proof -
  from assms obtain t where t: "resolve_table_name st tn = Inr t"
    by (cases "resolve_table_name st tn") (simp_all add: segment_insights_def bindE_lift)
  from assms t obtain names where n: "table_columns st t = Inr names"
    by (cases "table_columns st t")
       (simp_all add: segment_insights_def bindE_lift bindE_column_set)
  from assms obtain c fq qa qb rw where
    run: "bindE (insights_fetch st fq qa qb)
            (\<lambda>(mrow, active_users, recent_activity_row).
               bindE (liftE (activity_points rw
                        (case recent_activity_row of None \<Rightarrow> Map.empty | Some r \<Rightarrow> r)))
                 (\<lambda>points.
               returnE \<lparr>insight_segment = seg, metrics = insight_metrics mrow active_users,
                        recent_activity = points\<rparr>))
            (tr @ [Q_ListColumns t, Q_WeekColumnNames t]) = (Inr resp, tr')"
    unfolding insights_prelude [OF t n] by (auto split: sum.splits if_splits)
  then obtain mrow a r tr1 where
    f: "insights_fetch st fq qa qb (tr @ [Q_ListColumns t, Q_WeekColumnNames t]) =
          (Inr (mrow, a, r), tr1)"
    by (cases "insights_fetch st fq qa qb (tr @ [Q_ListColumns t, Q_WeekColumnNames t])")
       (auto simp: bindE_def split: sum.splits)
  from run f have "metrics resp = insight_metrics mrow a"
    by (auto simp: bindE_def liftE_def returnE_def split: sum.splits)
  with fetch_result [OF f] show ?thesis by (simp add: insight_metrics_def)
qed

text \<open>
  Claim C7. A segment-insights request never returns metrics with \<open>user_count = 0\<close>.
  When the request reaches the metrics query (the table name is valid, the catalogue is
  read, the segment column resolves and there is a week column) and the store answers it
  with no row, or with a row whose count is NULL or zero, the request fails with the
  error of status 404 "Segment not found or has no users." right after that query.
\<close>

theorem zero_users_not_found:
  "(\<forall>resp tr'. segment_insights st seg tn weeks tr = (Inr resp, tr') \<longrightarrow>
       user_count (metrics resp) \<noteq> 0) \<and>
   (resolve_table_name st tn = Inr t \<and> table_columns st t = Inr names \<and>
    resolve_column_name ''Segment'' (set names) t True = Inr c \<and>
    week_columns_of (filter week_regexp names) \<noteq> [] \<and>
    (\<forall>cs. metrics_first st (Q_InsightMetrics t c cs seg) = Inr None \<or>
          (\<exists>r. metrics_first st (Q_InsightMetrics t c cs seg) = Inr (Some r) \<and>
               (mr_user_count r = None \<or> mr_user_count r = Some 0))) \<longrightarrow>
    (\<exists>cs. segment_insights st seg tn weeks tr =
       (Inl (HTTPException 404 ''Segment not found or has no users.''),
        tr @ [Q_ListColumns t, Q_WeekColumnNames t, Q_InsightMetrics t c cs seg])))"
proof (intro conjI allI impI)
  fix resp tr'
  assume "segment_insights st seg tn weeks tr = (Inr resp, tr')"
  then show "user_count (metrics resp) \<noteq> 0" by (rule insights_result)
next
  assume a: "resolve_table_name st tn = Inr t \<and> table_columns st t = Inr names \<and>
    resolve_column_name ''Segment'' (set names) t True = Inr c \<and>
    week_columns_of (filter week_regexp names) \<noteq> [] \<and>
    (\<forall>cs. metrics_first st (Q_InsightMetrics t c cs seg) = Inr None \<or>
          (\<exists>r. metrics_first st (Q_InsightMetrics t c cs seg) = Inr (Some r) \<and>
               (mr_user_count r = None \<or> mr_user_count r = Some 0)))"
  let ?cs = "[first_candidate (candidates_of ''Cash Balance'') (set names),
              first_candidate (candidates_of ''Total Contests Joined'') (set names),
              first_candidate (candidates_of ''IPL Contests'') (set names),
              first_candidate (candidates_of ''Highest IPL Score'') (set names),
              first_candidate (candidates_of ''Registered Date'') (set names)]"
  from a have z: "metrics_first st (Q_InsightMetrics t c ?cs seg) = Inr None \<or>
          (\<exists>r. metrics_first st (Q_InsightMetrics t c ?cs seg) = Inr (Some r) \<and>
               (mr_user_count r = None \<or> mr_user_count r = Some 0))" by blast
  from a have t: "resolve_table_name st tn = Inr t" and n: "table_columns st t = Inr names"
    and sc: "resolve_column_name ''Segment'' (set names) t True = Inr c"
    and w: "week_columns_of (filter week_regexp names) \<noteq> []" by simp_all
  have "segment_insights st seg tn weeks tr =
       (Inl (HTTPException 404 ''Segment not found or has no users.''),
        tr @ [Q_ListColumns t, Q_WeekColumnNames t, Q_InsightMetrics t c ?cs seg])"
    unfolding insights_prelude [OF t n] sc using w
    by (simp add: bindE_def fetch_not_found [OF z])
  then show "\<exists>cs. segment_insights st seg tn weeks tr =
       (Inl (HTTPException 404 ''Segment not found or has no users.''),
        tr @ [Q_ListColumns t, Q_WeekColumnNames t, Q_InsightMetrics t c cs seg])" by blast
qed

text \<open>
  Claim C6, amended. For a table whose week catalogue is empty, segment insights, segment
  trends and the user timeline all fail, and the only statements executed are the two
  catalogue lookups: no main query runs. The failure is the error of status 404 when the
  required columns resolve (the segment column; for the timeline also the user id and
  name columns, after its date check); otherwise it is the earlier error, status 400
  for a start after the end and status 500 for a missing required column.
\<close>

theorem empty_catalog_fails_before_main_query:
  assumes "resolve_table_name st tn = Inr t"
    and "table_columns st t = Inr names"
    and "week_columns_of (filter week_regexp names) = []"
  shows "segment_insights st seg tn weeks tr =
           (case resolve_column_name ''Segment'' (set names) t True of
              Inl e \<Rightarrow> (Inl e, tr @ [Q_ListColumns t])
            | Inr c \<Rightarrow> (Inl (HTTPException 404 ''No weekly columns configured for this table.''),
                        tr @ [Q_ListColumns t, Q_WeekColumnNames t])) \<and>
         segment_trends st segs tn start end weeks tr =
           (case resolve_column_name ''Segment'' (set names) t True of
              Inl e \<Rightarrow> (Inl e, tr @ [Q_ListColumns t])
            | Inr c \<Rightarrow> (Inl (HTTPException 404 ''No weekly columns configured for this table.''),
                        tr @ [Q_ListColumns t, Q_WeekColumnNames t])) \<and>
         user_timeline st uid tn start end tr =
           (if start_after_end start end then
              (Inl (HTTPException 400 ''Start date must be before or equal to end date.''), tr)
            else case resolve_column_name ''User ID'' (set names) t True of
              Inl e \<Rightarrow> (Inl e, tr @ [Q_ListColumns t])
            | Inr c1 \<Rightarrow>
            (case resolve_column_name ''Name'' (set names) t True of
              Inl e \<Rightarrow> (Inl e, tr @ [Q_ListColumns t])
            | Inr c2 \<Rightarrow>
            (case resolve_column_name ''Segment'' (set names) t True of
              Inl e \<Rightarrow> (Inl e, tr @ [Q_ListColumns t])
            | Inr c3 \<Rightarrow>
                (Inl (HTTPException 404 ''No weekly columns available in the selected table.''),
                 tr @ [Q_ListColumns t, Q_WeekColumnNames t]))))"
proof (intro conjI)
  show "segment_insights st seg tn weeks tr =
           (case resolve_column_name ''Segment'' (set names) t True of
              Inl e \<Rightarrow> (Inl e, tr @ [Q_ListColumns t])
            | Inr c \<Rightarrow> (Inl (HTTPException 404 ''No weekly columns configured for this table.''),
                        tr @ [Q_ListColumns t, Q_WeekColumnNames t]))"
    unfolding insights_prelude [OF assms(1,2)] using assms(3) by (simp split: sum.splits)
  show "segment_trends st segs tn start end weeks tr =
           (case resolve_column_name ''Segment'' (set names) t True of
              Inl e \<Rightarrow> (Inl e, tr @ [Q_ListColumns t])
            | Inr c \<Rightarrow> (Inl (HTTPException 404 ''No weekly columns configured for this table.''),
                        tr @ [Q_ListColumns t, Q_WeekColumnNames t]))"
    using assms
    by (simp add: segment_trends_def bindE_lift bindE_column_set bindE_week_columns raiseE_def
        split: sum.splits)
  show "user_timeline st uid tn start end tr =
           (if start_after_end start end then
              (Inl (HTTPException 400 ''Start date must be before or equal to end date.''), tr)
            else case resolve_column_name ''User ID'' (set names) t True of
              Inl e \<Rightarrow> (Inl e, tr @ [Q_ListColumns t])
            | Inr c1 \<Rightarrow>
            (case resolve_column_name ''Name'' (set names) t True of
              Inl e \<Rightarrow> (Inl e, tr @ [Q_ListColumns t])
            | Inr c2 \<Rightarrow>
            (case resolve_column_name ''Segment'' (set names) t True of
              Inl e \<Rightarrow> (Inl e, tr @ [Q_ListColumns t])
            | Inr c3 \<Rightarrow>
                (Inl (HTTPException 404 ''No weekly columns available in the selected table.''),
                 tr @ [Q_ListColumns t, Q_WeekColumnNames t]))))"
    using assms
    by (simp add: user_timeline_def bindE_lift bindE_column_set bindE_week_columns raiseE_def
        split: sum.splits)
qed

subsection \<open>The example store, evaluated\<close>

lemmas parse_defs = parse_week_column_def py_strip_def strip_class_def is_space_def is_quote_def
  py_split_def strptime_ymd_def match_year_def match_month_def match_day_def match_hyphen_def
  make_date_def is_digit_def is_nonzero_digit_def digit_val_def days_in_month_def is_leap_def
  Let_def

lemmas regexp_defs = week_regexp_def week_shape_def date_shape_def is_quote_def is_digit_def

lemmas table_name_defs = resolve_table_name_def get_default_table_name_def
  ensure_safe_table_name_def TABLE_NAME_PATTERN_match_def table_name_char_def
  is_ascii_letter_def is_digit_def py_strip_def strip_class_def is_space_def Let_def

lemmas column_defs = resolve_column_name_def candidates_of_def COLUMN_CANDIDATES_def

lemma demo_filter:
  "filter week_regexp demo_columns =
     [''2024-01-08 - 2024-01-14'', ''2024-01-01 - 2024-01-07'',
      CHR 0x27 # ''2024-01-15 - 2024-01-21'', ''2024-01-22 - 2024-01-28'']"
  by (simp add: demo_columns_def regexp_defs)

lemma demo_catalog:
  "week_columns_of (filter week_regexp demo_columns) =
     [\<lparr>raw = ''2024-01-01 - 2024-01-07'', label = ''2024-01-01 - 2024-01-07'',
       start_date = Date 2024 1 1, end_date = Date 2024 1 7\<rparr>,
      \<lparr>raw = ''2024-01-08 - 2024-01-14'', label = ''2024-01-08 - 2024-01-14'',
       start_date = Date 2024 1 8, end_date = Date 2024 1 14\<rparr>,
      \<lparr>raw = CHR 0x27 # ''2024-01-15 - 2024-01-21'', label = ''2024-01-15 - 2024-01-21'',
       start_date = Date 2024 1 15, end_date = Date 2024 1 21\<rparr>,
      \<lparr>raw = ''2024-01-22 - 2024-01-28'', label = ''2024-01-22 - 2024-01-28'',
       start_date = Date 2024 1 22, end_date = Date 2024 1 28\<rparr>]"
  unfolding demo_filter
  by (simp add: week_columns_of_def List.map_filter_def parse_defs date_key_def)

lemma demo_tables:
  "resolve_table_name demo_store None = Inr ''user_cluster''"
  "resolve_table_name demo_store (Some ''no_weeks'') = Inr ''no_weeks''"
  "resolve_table_name demo_store (Some ''bare'') = Inr ''bare''"
  by (simp_all add: table_name_defs demo_store_def)

lemma demo_table_columns:
  "table_columns demo_store ''user_cluster'' = Inr demo_columns"
  "table_columns demo_store ''no_weeks'' = Inr [''Segment'', ''Name'', ''User ID'']"
  "table_columns demo_store ''bare'' = Inr [''name'']"
  by (simp_all add: demo_store_def)

lemma demo_resolved:
  "resolve_column_name ''Segment'' (set demo_columns) ''user_cluster'' True = Inr (Some ''segment'')"
  "resolve_column_name ''Segment'' (set [''Segment'', ''Name'', ''User ID'']) ''no_weeks'' True
     = Inr (Some ''Segment'')"
  "resolve_column_name ''Name'' (set [''Segment'', ''Name'', ''User ID'']) ''no_weeks'' True
     = Inr (Some ''Name'')"
  "resolve_column_name ''User ID'' (set [''Segment'', ''Name'', ''User ID'']) ''no_weeks'' True
     = Inr (Some ''User ID'')"
  by (simp_all add: column_defs demo_columns_def)

lemma no_weeks_catalog:
  "week_columns_of (filter week_regexp [''Segment'', ''Name'', ''User ID'']) = []"
  "week_columns_of (filter week_regexp [''name'']) = []"
  by (simp_all add: regexp_defs week_columns_of_def List.map_filter_def)

theorem empty_catalog_fails_before_main_query_witness:
  "segment_insights demo_store ''VIP'' (Some ''no_weeks'') 12 [] =
     (Inl (HTTPException 404 ''No weekly columns configured for this table.''),
      [Q_ListColumns ''no_weeks'', Q_WeekColumnNames ''no_weeks'']) \<and>
   segment_trends demo_store None (Some ''no_weeks'') None None 12 [] =
     (Inl (HTTPException 404 ''No weekly columns configured for this table.''),
      [Q_ListColumns ''no_weeks'', Q_WeekColumnNames ''no_weeks'']) \<and>
   user_timeline demo_store 7 (Some ''no_weeks'') None None [] =
     (Inl (HTTPException 404 ''No weekly columns available in the selected table.''),
      [Q_ListColumns ''no_weeks'', Q_WeekColumnNames ''no_weeks''])"
  using empty_catalog_fails_before_main_query
          [OF demo_tables(2) demo_table_columns(2) no_weeks_catalog(1),
           where seg = "''VIP''" and weeks = 12 and tr = "[]" and segs = None
             and start = None and ?end = None and uid = 7, unfolded demo_resolved]
  by (simp add: start_after_end_def)

text \<open>
  The table \<open>bare\<close> has an empty week catalogue and no segment column: segment insights
  fails on it with the error of status 500 for the missing column, not with status 404.
\<close>

theorem empty_catalog_not_always_404_counterexample:
  "table_columns demo_store ''bare'' = Inr [''name''] \<and>
   week_columns_of (filter week_regexp [''name'']) = [] \<and>
   segment_insights demo_store ''VIP'' (Some ''bare'') 8 [] =
     (Inl (HTTPException 500 (''Column '' @ [CHR 0x27] @ ''Segment'' @ [CHR 0x27] @
        '' not found in table '' @ [CHR 0x27] @ ''bare'' @ [CHR 0x27] @ ''.'')),
      [Q_ListColumns ''bare'']) \<and>
   fst (segment_insights demo_store ''VIP'' (Some ''bare'') 8 []) \<noteq>
     Inl (HTTPException 404 ''No weekly columns configured for this table.'')"
proof -
  have r: "resolve_column_name ''Segment'' (set [''name'']) ''bare'' True =
     Inl (HTTPException 500 (''Column '' @ [CHR 0x27] @ ''Segment'' @ [CHR 0x27] @
        '' not found in table '' @ [CHR 0x27] @ ''bare'' @ [CHR 0x27] @ ''.''))"
    by (simp add: column_defs)
  have run: "segment_insights demo_store ''VIP'' (Some ''bare'') 8 [] =
     (Inl (HTTPException 500 (''Column '' @ [CHR 0x27] @ ''Segment'' @ [CHR 0x27] @
        '' not found in table '' @ [CHR 0x27] @ ''bare'' @ [CHR 0x27] @ ''.'')),
      [Q_ListColumns ''bare''])"
    unfolding insights_prelude [OF demo_tables(3) demo_table_columns(3)] r by simp
  have "fst (segment_insights demo_store ''VIP'' (Some ''bare'') 8 []) \<noteq>
     Inl (HTTPException 404 ''No weekly columns configured for this table.'')"
    unfolding run by simp
  with run demo_table_columns(3) no_weeks_catalog(2) show ?thesis by blast
qed

theorem zero_users_not_found_witness:
  "(\<exists>resp tr'. segment_insights demo_store ''New Users'' None 8 [] = (Inr resp, tr') \<and>
       user_count (metrics resp) \<noteq> 0) \<and>
   fst (segment_insights demo_store ''VIP'' None 8 []) =
     Inl (HTTPException 404 ''Segment not found or has no users.'')"
proof -
  have z: "\<forall>cs. metrics_first demo_store
               (Q_InsightMetrics ''user_cluster'' (Some ''segment'') cs ''VIP'') = Inr None \<or>
          (\<exists>r. metrics_first demo_store
               (Q_InsightMetrics ''user_cluster'' (Some ''segment'') cs ''VIP'') = Inr (Some r) \<and>
               (mr_user_count r = None \<or> mr_user_count r = Some 0))"
    by (simp add: demo_store_def)
  have w: "week_columns_of (filter week_regexp demo_columns) \<noteq> []"
    unfolding demo_catalog by simp
  from zero_users_not_found
         [of demo_store "''VIP''" None 8 "[]" "''user_cluster''" demo_columns "Some ''segment''"]
       demo_tables(1) demo_table_columns(1) demo_resolved(1) w z
  have v: "fst (segment_insights demo_store ''VIP'' None 8 []) =
     Inl (HTTPException 404 ''Segment not found or has no users.'')"
    by auto
  have "\<exists>resp tr'. segment_insights demo_store ''New Users'' None 8 [] = (Inr resp, tr')"
    unfolding insights_prelude [OF demo_tables(1) demo_table_columns(1)] demo_resolved(1)
      demo_catalog
    by (simp add: insights_fetch_def db_guard_def bindE_def execute_def returnE_def raiseE_def
        liftE_def demo_store_def or_zero_def slice_from_def py_int_def value_or_zero_def
        demo_sums_def Let_def)
  then obtain resp tr' where
    r: "segment_insights demo_store ''New Users'' None 8 [] = (Inr resp, tr')" by blast
  with zero_users_not_found [of demo_store "''New Users''" None 8 "[]"]
  have "user_count (metrics resp) \<noteq> 0" by blast
  with r v show ?thesis by blast
qed

subsection \<open>The timeline of a user\<close>










subsection \<open>The segment breakdown\<close>
















subsection \<open>The week catalogue\<close>


























lemma parse_raw: "parse_week_column column_name = Some wc \<Longrightarrow> raw wc = column_name"
  by (auto simp: parse_week_column_def Let_def split: list.splits option.splits)

lemma catalog_members:
  "wc \<in> set (week_columns_of names) \<longleftrightarrow>
     (\<exists>column_name \<in> set names. parse_week_column column_name = Some wc)"
  by (force simp: week_columns_of_def List.map_filter_def image_iff)




lemma strptime_valid:
  "strptime_ymd p = Some d \<Longrightarrow> make_date (year d) (month d) (day d) = Some d"
  by (auto simp: strptime_ymd_def make_date_def split: option.splits if_splits)

lemma catalog_parse:
  assumes "col \<in> set (week_columns_of names)"
  shows "raw col \<in> set names" "parse_week_column (raw col) = Some col"
proof -
  from assms obtain n where n: "n \<in> set names" and p: "parse_week_column n = Some col"
    by (auto simp: catalog_members)
  from p have "raw col = n" by (rule parse_raw)
  with n p show "raw col \<in> set names" "parse_week_column (raw col) = Some col"
    by simp_all
qed

lemma catalog_regexp:
  "col \<in> set (week_columns_of (filter week_regexp names)) \<Longrightarrow>
     week_regexp (raw col) \<and> parse_week_column (raw col) = Some col"
  using catalog_parse [of col "filter week_regexp names"] by simp

lemma week_columns_result:
  assumes "get_week_columns st t tr = (Inr week_columns, tr')"
  obtains names where "table_columns st t = Inr names"
    "week_columns = week_columns_of (filter week_regexp names)"
  using assms unfolding week_columns_cases by (cases "table_columns st t") auto

lemma irregular_catalog:
  "get_week_columns irregular_store ''user_cluster'' [] =
     (Inr [\<lparr>raw = ''2024-01-01 - 2024-01-14'', label = ''2024-01-01 - 2024-01-14'',
            start_date = Date 2024 1 1, end_date = Date 2024 1 14\<rparr>,
           \<lparr>raw = ''2024-01-01 - 2024-01-07'', label = ''2024-01-01 - 2024-01-07'',
            start_date = Date 2024 1 1, end_date = Date 2024 1 7\<rparr>,
           \<lparr>raw = ''2024-03-07 - 2024-03-01'', label = ''2024-03-07 - 2024-03-01'',
            start_date = Date 2024 3 7, end_date = Date 2024 3 1\<rparr>],
      [Q_WeekColumnNames ''user_cluster''])"
proof -
  have f: "filter week_regexp irregular_columns =
     [''2024-01-01 - 2024-01-14'', ''2024-01-01 - 2024-01-07'', ''2024-03-07 - 2024-03-01'']"
    by (simp add: irregular_columns_def regexp_defs)
  have t: "table_columns irregular_store ''user_cluster'' = Inr irregular_columns"
    by (simp add: irregular_store_def)
  show ?thesis
    unfolding week_columns_cases t sum.case f
    by (simp add: week_columns_of_def List.map_filter_def parse_defs date_key_def)
qed




text \<open>
  Claim C5. \<open>_parse_week_column\<close> yields a week column exactly when the name, without
  the white space and then the single quotes around it, splits at \<open>" - "\<close> into two
  parts that \<open>strptime\<close> reads with the format \<open>%Y-%m-%d\<close>; the column then holds the
  name, the cleaned name and the two dates, whatever their order. A text that
  \<open>strptime\<close> reads is a date of the calendar. A name that does not parse, or that does
  not match the pattern of the query, is the name of no column of the catalogue, and
  every column of the catalogue is what its name parses to. The column
  \<open>2024-03-07 - 2024-03-01\<close>, which ends before it starts, is in the catalogue of its
  table.
\<close>

theorem week_column_parsing:
  "(parse_week_column column_name \<noteq> None \<longleftrightarrow>
      (\<exists>p0 p1. py_split (strip_class is_quote (py_strip column_name)) '' - '' = [p0, p1] \<and>
               strptime_ymd p0 \<noteq> None \<and> strptime_ymd p1 \<noteq> None)) \<and>
   (\<forall>p0 p1 d0 d1.
      py_split (strip_class is_quote (py_strip column_name)) '' - '' = [p0, p1] \<and>
      strptime_ymd p0 = Some d0 \<and> strptime_ymd p1 = Some d1 \<longrightarrow>
      parse_week_column column_name =
        Some \<lparr>raw = column_name, label = strip_class is_quote (py_strip column_name),
              start_date = d0, end_date = d1\<rparr>) \<and>
   (strptime_ymd p = Some d \<longrightarrow> make_date (year d) (month d) (day d) = Some d) \<and>
   (parse_week_column column_name = None \<longrightarrow> column_name \<notin> raw ` set (week_columns_of names)) \<and>
   (get_week_columns st table_name tr = (Inr week_columns, tr') \<longrightarrow>
      (parse_week_column column_name = None \<or> \<not> week_regexp column_name \<longrightarrow>
         column_name \<notin> raw ` set week_columns) \<and>
      (\<forall>col \<in> set week_columns. parse_week_column (raw col) = Some col)) \<and>
   (get_week_columns irregular_store ''user_cluster'' [] =
     (Inr [\<lparr>raw = ''2024-01-01 - 2024-01-14'', label = ''2024-01-01 - 2024-01-14'',
            start_date = Date 2024 1 1, end_date = Date 2024 1 14\<rparr>,
           \<lparr>raw = ''2024-01-01 - 2024-01-07'', label = ''2024-01-01 - 2024-01-07'',
            start_date = Date 2024 1 1, end_date = Date 2024 1 7\<rparr>,
           \<lparr>raw = ''2024-03-07 - 2024-03-01'', label = ''2024-03-07 - 2024-03-01'',
            start_date = Date 2024 3 7, end_date = Date 2024 3 1\<rparr>],
      [Q_WeekColumnNames ''user_cluster''])) \<and>
   date_key (Date 2024 3 1) < date_key (Date 2024 3 7)"
proof (intro conjI allI impI)
  show "parse_week_column column_name \<noteq> None \<longleftrightarrow>
      (\<exists>p0 p1. py_split (strip_class is_quote (py_strip column_name)) '' - '' = [p0, p1] \<and>
               strptime_ymd p0 \<noteq> None \<and> strptime_ymd p1 \<noteq> None)"
    unfolding parse_week_column_def Let_def
    by (auto split: list.splits option.splits)
  show "parse_week_column column_name =
        Some \<lparr>raw = column_name, label = strip_class is_quote (py_strip column_name),
              start_date = d0, end_date = d1\<rparr>"
    if "py_split (strip_class is_quote (py_strip column_name)) '' - '' = [p0, p1] \<and>
        strptime_ymd p0 = Some d0 \<and> strptime_ymd p1 = Some d1" for p0 p1 d0 d1
    using that unfolding parse_week_column_def Let_def by simp
  show "make_date (year d) (month d) (day d) = Some d" if "strptime_ymd p = Some d"
    using that by (rule strptime_valid)
  show "column_name \<notin> raw ` set (week_columns_of names)" if "parse_week_column column_name = None"
    using that by (auto dest: catalog_parse(2))
  show "get_week_columns irregular_store ''user_cluster'' [] =
     (Inr [\<lparr>raw = ''2024-01-01 - 2024-01-14'', label = ''2024-01-01 - 2024-01-14'',
            start_date = Date 2024 1 1, end_date = Date 2024 1 14\<rparr>,
           \<lparr>raw = ''2024-01-01 - 2024-01-07'', label = ''2024-01-01 - 2024-01-07'',
            start_date = Date 2024 1 1, end_date = Date 2024 1 7\<rparr>,
           \<lparr>raw = ''2024-03-07 - 2024-03-01'', label = ''2024-03-07 - 2024-03-01'',
            start_date = Date 2024 3 7, end_date = Date 2024 3 1\<rparr>],
      [Q_WeekColumnNames ''user_cluster''])"
    by (rule irregular_catalog)
  show "date_key (Date 2024 3 1) < date_key (Date 2024 3 7)"
    by (simp add: date_key_def)
next
  assume g: "get_week_columns st table_name tr = (Inr week_columns, tr')"
  then obtain ns where wc: "week_columns = week_columns_of (filter week_regexp ns)"
    by (rule week_columns_result)
  show "column_name \<notin> raw ` set week_columns" if "parse_week_column column_name = None \<or> \<not> week_regexp column_name"
    using that unfolding wc by (auto dest: catalog_regexp)
  show "\<forall>col \<in> set week_columns. parse_week_column (raw col) = Some col"
    unfolding wc by (simp add: catalog_regexp)
qed

theorem week_column_parsing_witness:
  "parse_week_column ''notes'' = None \<and>
   ''notes'' \<notin> raw ` set (week_columns_of demo_columns) \<and>
   parse_week_column '' '2024-03-07 - 2024-03-01' '' =
     Some \<lparr>raw = '' '2024-03-07 - 2024-03-01' '', label = ''2024-03-07 - 2024-03-01'',
           start_date = Date 2024 3 7, end_date = Date 2024 3 1\<rparr> \<and>
   parse_week_column ''2024-02-30 - 2024-03-01'' = None \<and>
   \<not> week_regexp ''2024-1-5 - 2024-1-9'' \<and>
   ''2024-1-5 - 2024-1-9'' \<notin>
     raw ` set (week_columns_of (filter week_regexp (''2024-1-5 - 2024-1-9'' # demo_columns))) \<and>
   make_date 2024 3 7 = Some (Date 2024 3 7)"
proof -
  have a: "parse_week_column ''notes'' = None"
    by (simp add: parse_defs)
  from week_column_parsing [where column_name = "''notes''" and names = demo_columns] a
  have b: "''notes'' \<notin> raw ` set (week_columns_of demo_columns)"
    by blast
  have c: "py_split (strip_class is_quote (py_strip '' '2024-03-07 - 2024-03-01' '')) '' - '' =
             [''2024-03-07'', ''2024-03-01''] \<and>
           strptime_ymd ''2024-03-07'' = Some (Date 2024 3 7) \<and>
           strptime_ymd ''2024-03-01'' = Some (Date 2024 3 1)"
    by (simp add: parse_defs)
  have l: "strip_class is_quote (py_strip '' '2024-03-07 - 2024-03-01' '') = ''2024-03-07 - 2024-03-01''"
    by (simp add: parse_defs)
  from week_column_parsing [where column_name = "'' '2024-03-07 - 2024-03-01' ''"] c
  have "parse_week_column '' '2024-03-07 - 2024-03-01' '' =
     Some \<lparr>raw = '' '2024-03-07 - 2024-03-01' '',
           label = strip_class is_quote (py_strip '' '2024-03-07 - 2024-03-01' ''),
           start_date = Date 2024 3 7, end_date = Date 2024 3 1\<rparr>"
    by blast
  then have e: "parse_week_column '' '2024-03-07 - 2024-03-01' '' =
     Some \<lparr>raw = '' '2024-03-07 - 2024-03-01' '', label = ''2024-03-07 - 2024-03-01'',
           start_date = Date 2024 3 7, end_date = Date 2024 3 1\<rparr>"
    unfolding l .
  from week_column_parsing [where p = "''2024-03-07''" and d = "Date 2024 3 7"] c
  have f: "make_date 2024 3 7 = Some (Date 2024 3 7)"
    by simp
  have h: "\<not> (\<exists>p0 p1. py_split (strip_class is_quote (py_strip ''2024-02-30 - 2024-03-01'')) '' - ''
                 = [p0, p1] \<and> strptime_ymd p0 \<noteq> None \<and> strptime_ymd p1 \<noteq> None)"
    by (simp add: parse_defs)
  from week_column_parsing [where column_name = "''2024-02-30 - 2024-03-01''"] h
  have i: "parse_week_column ''2024-02-30 - 2024-03-01'' = None"
    by blast
  have j: "\<not> week_regexp ''2024-1-5 - 2024-1-9''"
    by (simp add: regexp_defs)
  let ?t = "\<lparr>MYSQL_TABLE = None,
      table_columns = (\<lambda>t. Inr (''2024-1-5 - 2024-1-9'' # demo_columns)),
      count_rows = (\<lambda>q. Inr []), scalar_one = (\<lambda>q. Inr 0), metrics_first = (\<lambda>q. Inr None),
      mapping_first = (\<lambda>q. Inr None), grouped_rows = (\<lambda>q. Inr []),
      timeline_first = (\<lambda>q. Inr None)\<rparr>"
  have k: "get_week_columns ?t ''t'' [] =
     (Inr (week_columns_of (filter week_regexp (''2024-1-5 - 2024-1-9'' # demo_columns))),
      [Q_WeekColumnNames ''t''])"
    by (simp add: week_columns_cases)
  from week_column_parsing [where column_name = "''2024-1-5 - 2024-1-9''" and st = ?t
      and table_name = "''t''" and tr = "[]" and tr' = "[Q_WeekColumnNames ''t'']"
      and week_columns =
        "week_columns_of (filter week_regexp (''2024-1-5 - 2024-1-9'' # demo_columns))"] j k
  have m: "''2024-1-5 - 2024-1-9'' \<notin>
     raw ` set (week_columns_of (filter week_regexp (''2024-1-5 - 2024-1-9'' # demo_columns)))"
    by blast
  from a b e i j m f show ?thesis by blast
qed

end
